theory Spec2Isabelle
  imports Main "HOL-Library.Multiset"
begin

section \<open>Strings\<close>

text \<open>
  A Python \<open>str\<close> is modelled by a HOL \<open>string\<close> holding its UTF-8 encoding, so that
  writing a \<open>str\<close> into the archive is the identity on the model. Line feed, space, tab,
  the slash and the dot are single bytes in UTF-8, so every string operation used by the
  scripts (splitting at line feeds, stripping blanks, suffix matching, joining with
  slashes) acts on the encoding as it acts on the code points. A file name is the bytes
  the file system holds: Python decodes them as UTF-8 and carries bytes that are not
  UTF-8 along as lone surrogates, which stand for those bytes everywhere but in the
  header of a zip entry, where they cannot be encoded.
\<close>

definition startswith :: "string \<Rightarrow> string \<Rightarrow> bool" where
  "startswith s p = (take (length p) s = p)"

definition endswith :: "string \<Rightarrow> string \<Rightarrow> bool" where
  "endswith s p = (length p \<le> length s \<and> drop (length s - length p) s = p)"

text \<open>\<open>s.split(sep)\<close> for a one-character separator: never the empty list.\<close>

fun split :: "char \<Rightarrow> string \<Rightarrow> string list" where
  "split sep [] = [[]]"
| "split sep (c # cs) =
     (if c = sep then [] # split sep cs
      else (case split sep cs of [] \<Rightarrow> [[c]] | l # ls \<Rightarrow> (c # l) # ls))"

text \<open>\<open>sep.join(xs)\<close>.\<close>

fun join :: "string \<Rightarrow> string list \<Rightarrow> string" where
  "join sep [] = []"
| "join sep [x] = x"
| "join sep (x # y # ys) = x @ sep @ join sep (y # ys)"

text \<open>
  \<open>str(n)\<close> for a Python \<open>int\<close>: decimal digits, with a minus sign below zero.
  \<open>digit_char\<close> is only asked for digits below ten.
\<close>

definition digit_char :: "nat \<Rightarrow> char" where
  "digit_char d = ''0123456789'' ! d"

fun str_nat :: "nat \<Rightarrow> string" where
  "str_nat n = (if n < 10 then [digit_char n] else str_nat (n div 10) @ [digit_char (n mod 10)])"

declare str_nat.simps [simp del]

definition str_int :: "int \<Rightarrow> string" where
  "str_int i = (if i < 0 then CHR ''-'' # str_nat (nat (- i)) else str_nat (nat i))"

section \<open>textwrap.dedent\<close>

text \<open>
  The standard library's \<open>textwrap.dedent\<close>: lines made of spaces and tabs only are
  emptied; the margin is the longest run of leading spaces and tabs common to the lines
  that hold something else; the margin is removed from the start of every line that has
  it. Lines are separated by line feeds only.
\<close>

definition is_blank :: "char \<Rightarrow> bool" where
  "is_blank c = (c = CHR '' '' \<or> c = CHR 0x09)"

text \<open>The \<open>else\<close> branch of the margin loop: cut the margin at the first difference.\<close>

fun common_prefix :: "string \<Rightarrow> string \<Rightarrow> string" where
  "common_prefix (x # xs) (y # ys) = (if x = y then x # common_prefix xs ys else [])"
| "common_prefix _ _ = []"

definition margin_step :: "string option \<Rightarrow> string \<Rightarrow> string option" where
  "margin_step margin indent =
     (case margin of
        None \<Rightarrow> Some indent
      | Some m \<Rightarrow>
          if startswith indent m then Some m
          else if startswith m indent then Some indent
          else Some (common_prefix m indent))"

text \<open>The first substitution: a line of spaces and tabs only becomes the empty line.\<close>

definition blank_out :: "string \<Rightarrow> string" where
  "blank_out l = (if l \<noteq> [] \<and> list_all is_blank l then [] else l)"

text \<open>The leading blanks of every line that holds a character other than a blank.\<close>

definition indents_of :: "string list \<Rightarrow> string list" where
  "indents_of lines = map (takeWhile is_blank) (filter (\<lambda>l. dropWhile is_blank l \<noteq> []) lines)"

text \<open>The last substitution: the margin goes from the start of a line that has it.\<close>

definition strip_margin :: "string \<Rightarrow> string \<Rightarrow> string" where
  "strip_margin m l = (if startswith l m then drop (length m) l else l)"

definition dedent :: "string \<Rightarrow> string" where
  "dedent text =
     (let lines = map blank_out (split CHR ''\<newline>'' text);
          margin = foldl margin_step None (indents_of lines)
      in case margin of
           None \<Rightarrow> join ''\<newline>'' lines
         | Some m \<Rightarrow>
             if m = [] then join ''\<newline>'' lines
             else join ''\<newline>'' (map (strip_margin m) lines))"

section \<open>Errors\<close>

text \<open>
  The exceptions the scripts raise or let through. \<open>sys.exit(msg)\<close> raises
  \<open>SystemExit\<close> with the message; nothing in the scripts catches it, so the process prints
  the message and ends with a nonzero status.
\<close>

datatype pyerror =
    RuntimeError string
  | SystemExit string
  | KeyError string
  | ValueError string
  | TypeError
  | AttributeError
  | FileNotFoundError
  | NotADirectoryError
  | IsADirectoryError
  | JSONDecodeError
  | UnicodeEncodeError
  | StructError

section \<open>Paths and the file system\<close>

text \<open>
  A \<open>pathlib\<close> path on POSIX: a root (empty, one slash or two) and the components after
  it. \<open>Path s\<close> parses a string as the constructor does: runs of slashes and components
  \<open>.\<close> are dropped, \<open>..\<close> is kept.
\<close>

datatype path = PosixPath (root: string) (parts: "string list")

definition splitroot :: "string \<Rightarrow> string \<times> string" where
  "splitroot part =
     (if part \<noteq> [] \<and> hd part = CHR ''/'' then
        (let stripped_part = dropWhile (\<lambda>c. c = CHR ''/'') part
         in if length part - length stripped_part = 2 then (''//'', stripped_part)
            else (''/'', stripped_part))
      else ([], part))"

definition Path :: "string \<Rightarrow> path" where
  "Path s =
     (case splitroot s of
        (r, rel) \<Rightarrow> PosixPath r (filter (\<lambda>x. x \<noteq> [] \<and> x \<noteq> ''.'') (split CHR ''/'' rel)))"

text \<open>\<open>p / key\<close>: an absolute right operand replaces the left one.\<close>

definition truediv :: "path \<Rightarrow> string \<Rightarrow> path" where
  "truediv p key =
     (let q = Path key
      in if root q \<noteq> [] then q else PosixPath (root p) (parts p @ parts q))"

text \<open>\<open>str(p)\<close>; the empty path prints as a dot.\<close>

definition str_path :: "path \<Rightarrow> string" where
  "str_path p = (if root p = [] \<and> parts p = [] then ''.'' else root p @ join ''/'' (parts p))"

text \<open>\<open>p.name\<close>: the last component, empty when there is none.\<close>

definition path_name :: "path \<Rightarrow> string" where
  "path_name p = (if parts p = [] then [] else last (parts p))"

text \<open>The path a directory scan builds for the entry \<open>n\<close> of \<open>p\<close>.\<close>

definition make_child_relpath :: "path \<Rightarrow> string \<Rightarrow> path" where
  "make_child_relpath p n = PosixPath (root p) (parts p @ [n])"

text \<open>
  What a path denotes: a regular file with its bytes, or a directory with its entries in
  the order the operating system lists them. An entry is a name (the bytes the file
  system holds; Python reads them as UTF-8 and keeps what is not UTF-8 as lone
  surrogates), the year of the modification time that \<open>os.stat\<close> and \<open>time.localtime\<close>
  give for it, and what the name denotes. The file system is the function that resolves
  a path; \<open>None\<close> is a path that does not exist. Symbolic links, permissions and read
  errors are outside the model. An entry name of a real directory is not empty, is
  neither \<open>.\<close> nor \<open>..\<close>, holds no slash and no NUL, and no directory lists a name twice.
\<close>

datatype node = File string | Dir "(string \<times> int \<times> node) list"

type_synonym filesystem = "path \<Rightarrow> node option"

fun valid_name :: "string \<Rightarrow> bool" where
  "valid_name n =
     (n \<noteq> [] \<and> n \<noteq> ''.'' \<and> n \<noteq> ''..'' \<and> CHR ''/'' \<notin> set n \<and> CHR 0x00 \<notin> set n)"

text \<open>
  \<open>p.iterdir()\<close>: the children of a directory, each a path together with its
  modification year and what it denotes. A missing path and a path that is no directory
  raise.
\<close>

definition iterdir :: "filesystem \<Rightarrow> path \<Rightarrow> pyerror + (path \<times> int \<times> node) list" where
  "iterdir fs p =
     (case fs p of
        None \<Rightarrow> Inl FileNotFoundError
      | Some (File _) \<Rightarrow> Inl NotADirectoryError
      | Some (Dir es) \<Rightarrow> Inr (map (\<lambda>(n, t, x). (make_child_relpath p n, t, x)) es))"

text \<open>
  \<open>p.glob(pattern)\<close> for a one-component pattern that is a star followed by literal
  text, such as \<open>*.so\<close>, or literal text alone: the entries of the directory whose names
  match, of whatever kind, in listing order. Names that start with a dot take part, the
  comparison is case sensitive, and on a path that is not a directory the result is empty.
\<close>

definition fnmatch :: "string \<Rightarrow> string \<Rightarrow> bool" where
  "fnmatch n pat = (if pat \<noteq> [] \<and> hd pat = CHR ''*'' then endswith n (tl pat) else n = pat)"

definition glob :: "path \<times> int \<times> node \<Rightarrow> string \<Rightarrow> (path \<times> int \<times> node) list" where
  "glob d pat =
     (case snd (snd d) of
        File _ \<Rightarrow> []
      | Dir es \<Rightarrow>
          map (\<lambda>(n, t, x). (make_child_relpath (fst d) n, t, x))
            (filter (\<lambda>(n, t, x). fnmatch n pat) es))"

section \<open>Zip archives\<close>

text \<open>
  The archive file: its path, its entries (entry name and bytes, in order) and whether
  it has been closed with its central directory written, which is what makes the file a
  readable archive.
\<close>

record zip_file =
  zip_filename :: path
  zip_filelist :: "(string \<times> string) list"
  zip_closed :: bool

text \<open>
  A \<open>ZipFile\<close> object opened for writing: the archive file, and the error that waits in
  its list of entries when an entry was put on the list whose header cannot be packed.
  Opening the output file is taken to succeed, the output file lies outside the
  directory being packaged, and the clock of the machine shows a year that the format
  can store.
\<close>

record zip_writer = zip_file +
  zip_unpackable :: "pyerror option"

definition ZipFile :: "path \<Rightarrow> zip_writer" where
  "ZipFile file =
     \<lparr>zip_filename = file, zip_filelist = [], zip_closed = False, zip_unpackable = None\<rparr>"

definition writestr :: "zip_writer \<Rightarrow> string \<Rightarrow> string \<Rightarrow> zip_writer" where
  "writestr z arcname data = z\<lparr>zip_filelist := zip_filelist z @ [(arcname, data)]\<rparr>"

text \<open>
  Whether bytes are the UTF-8 encoding of a str without surrogates: the only names
  \<open>str.encode\<close> accepts.
\<close>

definition cont_byte :: "nat \<Rightarrow> bool" where
  "cont_byte b = (0x80 \<le> b \<and> b \<le> 0xBF)"

fun utf8_bytes :: "nat list \<Rightarrow> bool" where
  "utf8_bytes [] = True"
| "utf8_bytes [b] = (b < 0x80)"
| "utf8_bytes [b, c] = (if b < 0x80 then c < 0x80 else 0xC2 \<le> b \<and> b \<le> 0xDF \<and> cont_byte c)"
| "utf8_bytes (b # c # d # bs) =
     (if b < 0x80 then utf8_bytes (c # d # bs)
      else if 0xC2 \<le> b \<and> b \<le> 0xDF then cont_byte c \<and> utf8_bytes (d # bs)
      else if 0xE0 \<le> b \<and> b \<le> 0xEF then
        (if b = 0xE0 then 0xA0 \<le> c \<and> c \<le> 0xBF
         else if b = 0xED then 0x80 \<le> c \<and> c \<le> 0x9F
         else cont_byte c)
        \<and> cont_byte d \<and> utf8_bytes bs
      else if 0xF0 \<le> b \<and> b \<le> 0xF4 then
        (if b = 0xF0 then 0x90 \<le> c \<and> c \<le> 0xBF
         else if b = 0xF4 then 0x80 \<le> c \<and> c \<le> 0x8F
         else cont_byte c)
        \<and> cont_byte d
        \<and> (case bs of [] \<Rightarrow> False | e # r \<Rightarrow> cont_byte e \<and> utf8_bytes r)
      else False)"

definition utf8_valid :: "string \<Rightarrow> bool" where
  "utf8_valid s = utf8_bytes (map of_char s)"

text \<open>
  The error of packing the header of an entry with modification year \<open>t\<close> and name
  \<open>n\<close>: the name is encoded first, then the date and the length of the name go into
  16-bit fields; the date field holds the years 1980 to 2107.
\<close>

definition header_error :: "int \<Rightarrow> string \<Rightarrow> pyerror option" where
  "header_error t n =
     (if \<not> utf8_valid n then Some UnicodeEncodeError
      else if 2107 < t \<or> 65535 < length n then Some StructError
      else None)"

text \<open>
  \<open>z.write(p, arcname)\<close>, with the archive opened with its default
  \<open>strict_timestamps\<close>. A modification year before 1980 raises before anything is
  done. A regular file goes in with its bytes, once its header has been written. A
  directory goes in as an entry without bytes whose name is the arcname followed by a
  slash; it is put on the list of entries before its header is written, and stays there
  when the header raises. For an arcname built from entry names with slashes between
  them the normalisation of the arcname changes nothing.
\<close>

definition zip_write ::
  "zip_writer \<Rightarrow> path \<times> int \<times> node \<Rightarrow> string \<Rightarrow> (pyerror + unit) \<times> zip_writer" where
  "zip_write z f arcname =
     (if fst (snd f) < 1980 then
        (Inl (ValueError ''ZIP does not support timestamps before 1980''), z)
      else
        (case snd (snd f) of
           File data \<Rightarrow>
             (case header_error (fst (snd f)) arcname of
                Some e \<Rightarrow> (Inl e, z)
              | None \<Rightarrow> (Inr (), z\<lparr>zip_filelist := zip_filelist z @ [(arcname, data)]\<rparr>))
         | Dir _ \<Rightarrow>
             (case header_error (fst (snd f)) (arcname @ ''/'') of
                Some e \<Rightarrow>
                  (Inl e, z\<lparr>zip_filelist := zip_filelist z @ [(arcname @ ''/'', [])],
                             zip_unpackable := Some e\<rparr>)
              | None \<Rightarrow> (Inr (), z\<lparr>zip_filelist := zip_filelist z @ [(arcname @ ''/'', [])]\<rparr>))))"

text \<open>
  \<open>z.close()\<close> writes the central directory, packing every entry of the list again:
  with an entry on the list that cannot be packed it raises, and the file is left
  without its central directory.
\<close>

definition close :: "zip_writer \<Rightarrow> (pyerror + unit) \<times> zip_writer" where
  "close z =
     (case zip_unpackable z of
        Some e \<Rightarrow> (Inl e, z)
      | None \<Rightarrow> (Inr (), z\<lparr>zip_closed := True\<rparr>))"

text \<open>
  Leaving \<open>with ZipFile(...) as zip_file\<close>: the archive is closed whether the body
  returned or raised; an exception of \<open>close\<close> is the one that leaves the statement.
  What remains is the archive file.
\<close>

definition with_exit :: "(pyerror + unit) \<times> zip_writer \<Rightarrow> (pyerror + unit) \<times> zip_file" where
  "with_exit body =
     (case close (snd body) of
        (Inl e, z) \<Rightarrow> (Inl e, zip_file.truncate z)
      | (Inr u, z) \<Rightarrow> (fst body, zip_file.truncate z))"

section \<open>scripts/aar.py\<close>

text \<open>
  The f-string of \<open>generate_aar\<close>, formatted before it is dedented: every line of the
  literal starts at column 16, the two inner lines at column 20, and the closing quotes
  leave 16 spaces after the last line feed.
\<close>

definition manifest_fstring :: "string \<Rightarrow> string \<Rightarrow> int \<Rightarrow> string" where
  "manifest_fstring group_id artifact_id min_sdk_version =
     ''                <?xml version=\"1.0\" encoding=\"utf-8\"?>\<newline>''
     @ ''                <manifest xmlns:android=\"http://schemas.android.com/apk/res/android\"\<newline>''
     @ ''                    package=\"'' @ group_id @ ''.'' @ artifact_id @ ''\" >\<newline>''
     @ ''                    <uses-sdk android:minSdkVersion=\"'' @ str_int min_sdk_version
       @ ''\" />\<newline>''
     @ ''                </manifest>\<newline>''
     @ ''                ''"

text \<open>
  The inner loop: every library of one ABI directory goes into the archive; a write that
  raises ends it.
\<close>

fun write_libs ::
  "zip_writer \<Rightarrow> path \<times> int \<times> node \<Rightarrow> (path \<times> int \<times> node) list
     \<Rightarrow> (pyerror + unit) \<times> zip_writer" where
  "write_libs zip_file abi_dir [] = (Inr (), zip_file)"
| "write_libs zip_file abi_dir (lib # libs) =
     (case zip_write zip_file lib
             (''jni/'' @ path_name (fst abi_dir) @ ''/'' @ path_name (fst lib)) of
        (Inl e, zip_file) \<Rightarrow> (Inl e, zip_file)
      | (Inr u, zip_file) \<Rightarrow> write_libs zip_file abi_dir libs)"

text \<open>The outer loop: it stops at the first child without a match.\<close>

fun abi_loop ::
  "zip_writer \<Rightarrow> (path \<times> int \<times> node) list \<Rightarrow> (pyerror + unit) \<times> zip_writer" where
  "abi_loop zip_file [] = (Inr (), zip_file)"
| "abi_loop zip_file (abi_dir # abi_dirs) =
     (let libs = glob abi_dir ''*.so''
      in if libs = [] then
           (Inl (RuntimeError
                   (''No libraries found matching '' @ str_path (fst abi_dir) @ ''/*.so'')),
            zip_file)
         else
           (case write_libs zip_file abi_dir libs of
              (Inl e, zip_file) \<Rightarrow> (Inl e, zip_file)
            | (Inr u, zip_file) \<Rightarrow> abi_loop zip_file abi_dirs))"

text \<open>
  \<open>generate_aar\<close>: the result of the call and the archive file as the \<open>with\<close>
  statement leaves it.
\<close>

definition generate_aar ::
  "filesystem \<Rightarrow> path \<Rightarrow> path \<Rightarrow> string \<Rightarrow> string \<Rightarrow> int \<Rightarrow> (pyerror + unit) \<times> zip_file" where
  "generate_aar fs output_path library_dir group_id artifact_id min_sdk_version =
     (let zip_file = writestr (ZipFile output_path) ''AndroidManifest.xml''
                       (dedent (manifest_fstring group_id artifact_id min_sdk_version))
      in with_exit
           (case iterdir fs library_dir of
              Inl e \<Rightarrow> (Inl e, zip_file)
            | Inr abi_dirs \<Rightarrow> abi_loop zip_file abi_dirs))"

section \<open>scripts/jitpack.py\<close>

subsection \<open>The environment\<close>

text \<open>\<open>os.environ[key]\<close>: a variable that is not set raises \<open>KeyError\<close> with its name.\<close>

type_synonym environ = "string \<rightharpoonup> string"

definition environ_getitem :: "environ \<Rightarrow> string \<Rightarrow> pyerror + string" where
  "environ_getitem env key = (case env key of None \<Rightarrow> Inl (KeyError key) | Some v \<Rightarrow> Inr v)"

text \<open>
  The three lookups run from left to right and the first missing one raises; the handler
  turns the \<open>KeyError\<close> into \<open>sys.exit\<close> with the name of the key.
\<close>

definition artifact_info_from_env :: "environ \<Rightarrow> pyerror + (string \<times> string \<times> string)" where
  "artifact_info_from_env env =
     (case (case environ_getitem env ''GROUP'' of
              Inl e \<Rightarrow> Inl e
            | Inr g \<Rightarrow>
                (case environ_getitem env ''ARTIFACT'' of
                   Inl e \<Rightarrow> Inl e
                 | Inr a \<Rightarrow>
                     (case environ_getitem env ''VERSION'' of
                        Inl e \<Rightarrow> Inl e
                      | Inr v \<Rightarrow> Inr (g, a, v)))) of
        Inl (KeyError k) \<Rightarrow> Inl (SystemExit (k @ '' must be set in the environment''))
      | Inl e \<Rightarrow> Inl e
      | Inr info \<Rightarrow> Inr info)"

subsection \<open>The NDK metadata\<close>

text \<open>
  What \<open>json.load\<close> returns: \<open>None\<close>, a bool, an int, a float (a finite one as
  mantissa and binary exponent; NaN and the infinities apart), a str, a list, or a dict
  with its items in insertion order, no key twice. The parser itself is a parameter of
  the model.
\<close>

datatype json =
    JNull
  | JBool bool
  | JInt int
  | JFloat int int
  | JNonFinite
  | JStr string
  | JList "json list"
  | JDict "(string \<times> json) list"

text \<open>The truth value an \<open>if\<close> gives to a value.\<close>

fun truthy :: "json \<Rightarrow> bool" where
  "truthy JNull = False"
| "truthy (JBool b) = b"
| "truthy (JInt i) = (i \<noteq> 0)"
| "truthy (JFloat m e) = (m \<noteq> 0)"
| "truthy JNonFinite = True"
| "truthy (JStr s) = (s \<noteq> [])"
| "truthy (JList xs) = (xs \<noteq> [])"
| "truthy (JDict kvs) = (kvs \<noteq> [])"

text \<open>\<open>data[key]\<close> with a str key: only a dict that has the key answers.\<close>

fun getitem :: "json \<Rightarrow> string \<Rightarrow> pyerror + json" where
  "getitem (JDict kvs) key = (case map_of kvs key of None \<Rightarrow> Inl (KeyError key) | Some v \<Rightarrow> Inr v)"
| "getitem _ key = Inl TypeError"

text \<open>\<open>abis_meta.items()\<close>: only a dict has items.\<close>

fun items :: "json \<Rightarrow> pyerror + (string \<times> json) list" where
  "items (JDict kvs) = Inr kvs"
| "items _ = Inl AttributeError"

text \<open>
  The loop of the generator: the names yielded so far and, when the body raised, the
  exception; \<open>None\<close> is a generator that ran to its end.
\<close>

fun yield_defaults :: "(string \<times> json) list \<Rightarrow> string list \<times> pyerror option" where
  "yield_defaults [] = ([], None)"
| "yield_defaults ((name, data) # rest) =
     (case getitem data ''default'' of
        Inl e \<Rightarrow> ([], Some e)
      | Inr d \<Rightarrow>
          (case yield_defaults rest of
             (names, r) \<Rightarrow> if truthy d then (name # names, r) else (names, r)))"

text \<open>
  \<open>ndk_default_abis\<close> is a generator: its body runs when the generator is consumed, as
  \<open>main\<close> does at once with \<open>list\<close>. The model gives the names it yields and how it ends.
  \<open>open\<close> on a directory raises.
\<close>

definition ndk_default_abis ::
  "(string \<Rightarrow> pyerror + json) \<Rightarrow> environ \<Rightarrow> filesystem \<Rightarrow> string list \<times> pyerror option" where
  "ndk_default_abis json_load env fs =
     (case environ_getitem env ''ANDROID_NDK_HOME'' of
        Inl e \<Rightarrow> ([], Some (SystemExit ''ANDROID_NDK_HOME must be set in the environment''))
      | Inr home \<Rightarrow>
          (let ndk = Path home;
               abis_meta_path = truediv ndk ''meta/abis.json''
           in case fs abis_meta_path of
                None \<Rightarrow>
                  ([], Some (SystemExit
                     (str_path abis_meta_path @ '' does not exist. Does ANDROID_NDK_HOME (''
                      @ str_path ndk @ '') point to a valid NDK?'')))
              | Some (Dir _) \<Rightarrow> ([], Some IsADirectoryError)
              | Some (File abis_meta_file) \<Rightarrow>
                  (case json_load abis_meta_file of
                     Inl e \<Rightarrow> ([], Some e)
                   | Inr abis_meta \<Rightarrow>
                       (case items abis_meta of
                          Inl e \<Rightarrow> ([], Some e)
                        | Inr kvs \<Rightarrow> yield_defaults kvs))))"

subsection \<open>Packaging\<close>

text \<open>The second copy of the packaging function, translated from its own text.\<close>

definition jitpack_manifest_fstring :: "string \<Rightarrow> string \<Rightarrow> int \<Rightarrow> string" where
  "jitpack_manifest_fstring group_id artifact_id min_sdk_version =
     ''                <?xml version=\"1.0\" encoding=\"utf-8\"?>\<newline>''
     @ ''                <manifest xmlns:android=\"http://schemas.android.com/apk/res/android\"\<newline>''
     @ ''                    package=\"'' @ group_id @ ''.'' @ artifact_id @ ''\" >\<newline>''
     @ ''                    <uses-sdk android:minSdkVersion=\"'' @ str_int min_sdk_version
       @ ''\" />\<newline>''
     @ ''                </manifest>\<newline>''
     @ ''                ''"

fun jitpack_write_libs ::
  "zip_writer \<Rightarrow> path \<times> int \<times> node \<Rightarrow> (path \<times> int \<times> node) list
     \<Rightarrow> (pyerror + unit) \<times> zip_writer" where
  "jitpack_write_libs zip_file abi_dir [] = (Inr (), zip_file)"
| "jitpack_write_libs zip_file abi_dir (lib # libs) =
     (case zip_write zip_file lib
             (''jni/'' @ path_name (fst abi_dir) @ ''/'' @ path_name (fst lib)) of
        (Inl e, zip_file) \<Rightarrow> (Inl e, zip_file)
      | (Inr u, zip_file) \<Rightarrow> jitpack_write_libs zip_file abi_dir libs)"

fun jitpack_abi_loop ::
  "zip_writer \<Rightarrow> (path \<times> int \<times> node) list \<Rightarrow> (pyerror + unit) \<times> zip_writer" where
  "jitpack_abi_loop zip_file [] = (Inr (), zip_file)"
| "jitpack_abi_loop zip_file (abi_dir # abi_dirs) =
     (let libs = glob abi_dir ''*.so''
      in if libs = [] then
           (Inl (RuntimeError
                   (''No libraries found matching '' @ str_path (fst abi_dir) @ ''/*.so'')),
            zip_file)
         else
           (case jitpack_write_libs zip_file abi_dir libs of
              (Inl e, zip_file) \<Rightarrow> (Inl e, zip_file)
            | (Inr u, zip_file) \<Rightarrow> jitpack_abi_loop zip_file abi_dirs))"

definition jitpack_generate_aar ::
  "filesystem \<Rightarrow> path \<Rightarrow> path \<Rightarrow> string \<Rightarrow> string \<Rightarrow> int \<Rightarrow> (pyerror + unit) \<times> zip_file" where
  "jitpack_generate_aar fs output_path library_dir group_id artifact_id min_sdk_version =
     (let zip_file = writestr (ZipFile output_path) ''AndroidManifest.xml''
                       (dedent (jitpack_manifest_fstring group_id artifact_id min_sdk_version))
      in with_exit
           (case iterdir fs library_dir of
              Inl e \<Rightarrow> (Inl e, zip_file)
            | Inr abi_dirs \<Rightarrow> jitpack_abi_loop zip_file abi_dirs))"

subsection \<open>The entry point\<close>

text \<open>
  \<open>main\<close> starts with \<open>artifact_info_from_env\<close>. The statements after it (the NDK
  build, the packaging and the installation) call the modules \<open>android\<close> and
  \<open>common_ci\<close> and an external installer; they are the parameter \<open>rest\<close>, which runs
  only when the first statement returns.
\<close>

definition main :: "environ \<Rightarrow> (string \<times> string \<times> string \<Rightarrow> pyerror + 'a) \<Rightarrow> pyerror + 'a" where
  "main env rest =
     (case artifact_info_from_env env of
        Inl e \<Rightarrow> Inl e
      | Inr info \<Rightarrow> rest info)"

section \<open>Notions used in the statements\<close>

subsection \<open>The manifest document and the lines of the template\<close>

text \<open>
  The manifest document: the template without its indentation, with the three values put
  in as they are.
\<close>

definition manifest_text :: "string \<Rightarrow> string \<Rightarrow> int \<Rightarrow> string" where
  "manifest_text group_id artifact_id min_sdk_version =
     ''<?xml version=\"1.0\" encoding=\"utf-8\"?>\<newline>''
     @ ''<manifest xmlns:android=\"http://schemas.android.com/apk/res/android\"\<newline>''
     @ ''    package=\"'' @ group_id @ ''.'' @ artifact_id @ ''\" >\<newline>''
     @ ''    <uses-sdk android:minSdkVersion=\"'' @ str_int min_sdk_version @ ''\" />\<newline>''
     @ ''</manifest>\<newline>''"

definition tpl1 :: string where
  "tpl1 = ''                <?xml version=\"1.0\" encoding=\"utf-8\"?>''"

definition tpl2 :: string where
  "tpl2 = ''                <manifest xmlns:android=\"http://schemas.android.com/apk/res/android\"''"

definition tpl3 :: "string \<Rightarrow> string \<Rightarrow> string" where
  "tpl3 g a = ''                    package=\"'' @ g @ ''.'' @ a @ ''\" >''"

definition tpl4 :: "int \<Rightarrow> string" where
  "tpl4 n = ''                    <uses-sdk android:minSdkVersion=\"'' @ str_int n @ ''\" />''"

definition tpl5 :: string where
  "tpl5 = ''                </manifest>''"

definition tpl6 :: string where
  "tpl6 = ''                ''"

definition sp16 :: string where
  "sp16 = ''                ''"

definition sp20 :: string where
  "sp20 = ''                    ''"

subsection \<open>Directory listings and the entries they give\<close>

type_synonym entry = "string \<times> int \<times> node"

text \<open>The entries of a child of the library directory that match \<open>*.so\<close>.\<close>

definition matches :: "node \<Rightarrow> entry list" where
  "matches x = (case x of File _ \<Rightarrow> [] | Dir es \<Rightarrow> filter (\<lambda>(n, t, y). fnmatch n ''*.so'') es)"

definition no_match :: "entry \<Rightarrow> bool" where
  "no_match d = (matches (snd (snd d)) = [])"

text \<open>
  The archive entry of the matching entry \<open>l\<close> of the child named \<open>a\<close>, and the error
  that writing it raises, if any.
\<close>

definition lib_entry :: "string \<Rightarrow> entry \<Rightarrow> string \<times> string" where
  "lib_entry a l =
     (case snd (snd l) of
        File data \<Rightarrow> (''jni/'' @ a @ ''/'' @ fst l, data)
      | Dir _ \<Rightarrow> (''jni/'' @ a @ ''/'' @ fst l @ ''/'', []))"

definition write_error :: "string \<Rightarrow> entry \<Rightarrow> pyerror option" where
  "write_error a l =
     (if fst (snd l) < 1980 then Some (ValueError ''ZIP does not support timestamps before 1980'')
      else header_error (fst (snd l)) (fst (lib_entry a l)))"

text \<open>
  An entry the archive can store: a modification year from 1980 to 2107 and an archive
  name that is UTF-8 and at most 65535 bytes long.
\<close>

definition storable :: "string \<Rightarrow> entry \<Rightarrow> bool" where
  "storable a l = (write_error a l = None)"

definition storable_child :: "entry \<Rightarrow> bool" where
  "storable_child d = list_all (storable (fst d)) (matches (snd (snd d)))"

text \<open>A child that goes into the archive: it has a match and every match can be stored.\<close>

definition packs :: "entry \<Rightarrow> bool" where
  "packs d = (\<not> no_match d \<and> storable_child d)"

definition abi_entries :: "entry \<Rightarrow> (string \<times> string) list" where
  "abi_entries d = map (lib_entry (fst d)) (matches (snd (snd d)))"

definition children :: "path \<Rightarrow> entry list \<Rightarrow> (path \<times> int \<times> node) list" where
  "children p es = map (\<lambda>(n, t, x). (make_child_relpath p n, t, x)) es"

text \<open>The error raised at the child named \<open>n\<close> of the library directory \<open>p\<close>.\<close>

definition no_libraries :: "path \<Rightarrow> string \<Rightarrow> pyerror" where
  "no_libraries p n =
     RuntimeError (''No libraries found matching '' @ str_path (make_child_relpath p n) @ ''/*.so'')"






text \<open>
  The layout the packager is meant for: every child of the library directory is a
  directory that holds a regular file matching \<open>*.so\<close>.
\<close>

definition has_library :: "node \<Rightarrow> bool" where
  "has_library x =
     (case x of
        File _ \<Rightarrow> False
      | Dir sub \<Rightarrow>
          list_ex (\<lambda>(f, u, y). fnmatch f ''*.so'' \<and> (case y of File _ \<Rightarrow> True | Dir _ \<Rightarrow> False))
            sub)"

definition abi_layout :: "entry list \<Rightarrow> bool" where
  "abi_layout es = list_all (\<lambda>(a, t, x). has_library x) es"

text \<open>
  A library directory as the packager expects it: every child is a directory, every
  child has an entry matching \<open>*.so\<close>, every matching entry is a regular file that the
  archive can store, and the names are those of a real directory tree.
\<close>

definition abi_dir_ok :: "entry \<Rightarrow> bool" where
  "abi_dir_ok d =
     (case snd (snd d) of
        File _ \<Rightarrow> False
      | Dir es \<Rightarrow>
          valid_name (fst d) \<and> list_all (\<lambda>(f, u, y). valid_name f) es \<and> distinct (map fst es)
          \<and> matches (snd (snd d)) \<noteq> []
          \<and> list_all (\<lambda>(f, u, y). case y of File _ \<Rightarrow> True | Dir _ \<Rightarrow> False)
                (matches (snd (snd d)))
          \<and> storable_child d)"

definition library_dir_ok :: "entry list \<Rightarrow> bool" where
  "library_dir_ok es = (distinct (map fst es) \<and> list_all abi_dir_ok es)"

subsection \<open>Example inputs\<close>

text \<open>A file system that holds one tree at one path.\<close>

fun walk :: "node \<Rightarrow> string list \<Rightarrow> node option" where
  "walk x [] = Some x"
| "walk (File _) (n # ns) = None"
| "walk (Dir es) (n # ns) = (case map_of es n of None \<Rightarrow> None | Some (t, y) \<Rightarrow> walk y ns)"

definition mount :: "path \<Rightarrow> node \<Rightarrow> filesystem" where
  "mount p x q =
     (if root q = root p \<and> take (length (parts p)) (parts q) = parts p
      then walk x (drop (length (parts p)) (parts q)) else None)"

definition lib_path :: path where
  "lib_path = PosixPath [] [''lib'']"

definition out_path :: path where
  "out_path = PosixPath [] [''out.aar'']"

text \<open>Two ABI directories with one library each.\<close>

definition two_abi_tree :: "entry list" where
  "two_abi_tree =
     [(''arm64-v8a'', 2024, Dir [(''libfoo.so'', 2024, File ''ELF-arm'')]),
      (''x86_64'', 2024, Dir [(''libfoo.so'', 2024, File ''ELF-x86'')])]"

text \<open>The second ABI directory holds no library.\<close>

definition empty_abi_tree :: "entry list" where
  "empty_abi_tree =
     [(''arm64-v8a'', 2024, Dir [(''libfoo.so'', 2024, File ''ELF'')]),
      (''x86_64'', 2024, Dir [(''notes.txt'', 2024, File ''n'')])]"

text \<open>A regular file listed after an ABI directory with a library.\<close>

definition readme_last_tree :: "entry list" where
  "readme_last_tree =
     [(''arm64-v8a'', 2024, Dir [(''libfoo.so'', 2024, File ''ELF'')]),
      (''README.md'', 2024, File ''text'')]"

text \<open>A regular file listed after an ABI directory that is empty.\<close>

definition empty_then_readme_tree :: "entry list" where
  "empty_then_readme_tree = [(''arm64-v8a'', 2024, Dir []), (''README.md'', 2024, File ''text'')]"

text \<open>An ABI directory with a library and with a subdirectory whose name ends in \<open>.so\<close>.\<close>

definition so_dir_tree :: "entry list" where
  "so_dir_tree =
     [(''arm64-v8a'', 2024,
       Dir [(''libfoo.so'', 2024, File ''ELF''), (''x.so'', 2024, Dir [])])]"

text \<open>An ABI directory that holds nothing but a subdirectory whose name ends in \<open>.so\<close>.\<close>

definition so_dir_only_tree :: "entry list" where
  "so_dir_only_tree = [(''arm64-v8a'', 2024, Dir [(''x.so'', 2024, Dir [])])]"

text \<open>Environments of the driver: everything set, and \<open>ARTIFACT\<close> missing.\<close>

definition env_full :: environ where
  "env_full =
     [''GROUP'' \<mapsto> ''com.github.user'', ''ARTIFACT'' \<mapsto> ''layers'', ''VERSION'' \<mapsto> ''1.0'']"

definition env_no_artifact :: environ where
  "env_no_artifact = [''GROUP'' \<mapsto> ''com.github.user'', ''VERSION'' \<mapsto> ''1.0'']"

text \<open>An NDK at \<open>/opt/ndk\<close> whose metadata lists three ABIs, one of them not default.\<close>

definition ndk_env :: environ where
  "ndk_env = [''ANDROID_NDK_HOME'' \<mapsto> ''/opt/ndk/'']"

definition abis_text :: string where
  "abis_text =
     ''{\"arm64-v8a\": {\"default\": true}, \"riscv64\": {\"default\": false}, \"x86_64\": {\"default\": true}}''"

definition abis_items :: "(string \<times> json) list" where
  "abis_items =
     [(''arm64-v8a'', JDict [(''default'', JBool True)]),
      (''riscv64'', JDict [(''default'', JBool False)]),
      (''x86_64'', JDict [(''default'', JBool True)])]"

definition abis_load :: "string \<Rightarrow> pyerror + json" where
  "abis_load s = (if s = abis_text then Inr (JDict abis_items) else Inl JSONDecodeError)"

definition ndk_fs :: filesystem where
  "ndk_fs = mount (PosixPath ''/'' [''opt'', ''ndk''])
              (Dir [(''meta'', 2024, Dir [(''abis.json'', 2024, File abis_text)])])"



text \<open>A library last modified in 1975, and a subdirectory named \<open>x.so\<close> dated 2112.\<close>

definition old_library_tree :: "entry list" where
  "old_library_tree =
     [(''arm64-v8a'', 2024, Dir [(''libfoo.so'', 1975, File ''ELF'')]),
      (''x86_64'', 2024, Dir [])]"

definition late_so_dir_tree :: "entry list" where
  "late_so_dir_tree = [(''arm64-v8a'', 2024, Dir [(''x.so'', 2112, Dir [])])]"

section \<open>Properties of the string functions\<close>

lemma split_append_sep: "sep \<notin> set xs \<Longrightarrow> split sep (xs @ sep # ys) = xs # split sep ys"
  by (induction xs) auto

lemma split_no_sep: "sep \<notin> set xs \<Longrightarrow> split sep xs = [xs]"
  by (induction xs) auto

lemma digit_char_not_nl: "d < 10 \<Longrightarrow> digit_char d \<noteq> CHR ''\<newline>''"
proof -
  assume "d < 10"
  then have "''0123456789'' ! d \<in> set ''0123456789''" by (intro nth_mem) simp
  then show ?thesis unfolding digit_char_def by auto
qed

lemma str_nat_no_nl: "CHR ''\<newline>'' \<notin> set (str_nat n)"
proof (induction n rule: str_nat.induct)
  case (1 n)
  show ?case
  proof (cases "n < 10")
    case True
    then show ?thesis using digit_char_not_nl [of n] by (subst str_nat.simps) auto
  next
    case False
    then show ?thesis using 1 digit_char_not_nl [of "n mod 10"] by (subst str_nat.simps) auto
  qed
qed

lemma str_int_no_nl: "CHR ''\<newline>'' \<notin> set (str_int n)"
  by (simp add: str_int_def str_nat_no_nl)

section \<open>The template, dedented\<close>

lemma fstring_lines:
  "manifest_fstring g a n =
     tpl1 @ CHR ''\<newline>'' # tpl2 @ CHR ''\<newline>'' # tpl3 g a @ CHR ''\<newline>'' # tpl4 n
       @ CHR ''\<newline>'' # tpl5 @ CHR ''\<newline>'' # tpl6"
  by (simp add: manifest_fstring_def tpl1_def tpl2_def tpl3_def tpl4_def tpl5_def tpl6_def)

lemma split_fstring:
  assumes "CHR ''\<newline>'' \<notin> set g" "CHR ''\<newline>'' \<notin> set a"
  shows "split CHR ''\<newline>'' (manifest_fstring g a n) = [tpl1, tpl2, tpl3 g a, tpl4 n, tpl5, tpl6]"
proof -
  have 1: "CHR ''\<newline>'' \<notin> set tpl1" by (simp add: tpl1_def)
  have 2: "CHR ''\<newline>'' \<notin> set tpl2" by (simp add: tpl2_def)
  have 3: "CHR ''\<newline>'' \<notin> set (tpl3 g a)" using assms by (simp add: tpl3_def)
  have 4: "CHR ''\<newline>'' \<notin> set (tpl4 n)" using str_int_no_nl by (simp add: tpl4_def)
  have 5: "CHR ''\<newline>'' \<notin> set tpl5" by (simp add: tpl5_def)
  have 6: "CHR ''\<newline>'' \<notin> set tpl6" by (simp add: tpl6_def)
  show ?thesis unfolding fstring_lines
    by (simp only: split_append_sep [OF 1] split_append_sep [OF 2] split_append_sep [OF 3]
        split_append_sep [OF 4] split_append_sep [OF 5] split_no_sep [OF 6])
qed

lemma blank_out_lines:
  "blank_out tpl1 = tpl1" "blank_out tpl2 = tpl2" "blank_out (tpl3 g a) = tpl3 g a"
  "blank_out (tpl4 n) = tpl4 n" "blank_out tpl5 = tpl5" "blank_out tpl6 = []"
  by (simp_all add: blank_out_def tpl1_def tpl2_def tpl3_def tpl4_def tpl5_def tpl6_def
      is_blank_def)

lemma indents_of_lines:
  "indents_of [tpl1, tpl2, tpl3 g a, tpl4 n, tpl5, []] = [sp16, sp16, sp20, sp20, sp16]"
  by (simp add: indents_of_def tpl1_def tpl2_def tpl3_def tpl4_def tpl5_def sp16_def sp20_def
      is_blank_def)

lemma margin_of_lines:
  "foldl margin_step None [sp16, sp16, sp20, sp20, sp16] = Some sp16"
  "sp16 \<noteq> []"
  by (simp_all add: margin_step_def startswith_def sp16_def sp20_def)

lemma strip_margin_lines:
  "strip_margin sp16 tpl1 = drop 16 tpl1" "strip_margin sp16 tpl2 = drop 16 tpl2"
  "strip_margin sp16 (tpl3 g a) = drop 16 (tpl3 g a)"
  "strip_margin sp16 (tpl4 n) = drop 16 (tpl4 n)"
  "strip_margin sp16 tpl5 = drop 16 tpl5" "strip_margin sp16 [] = []"
  by (simp_all add: strip_margin_def tpl1_def tpl2_def tpl3_def tpl4_def tpl5_def
      startswith_def sp16_def)

lemma dedent_manifest:
  assumes "CHR ''\<newline>'' \<notin> set g" "CHR ''\<newline>'' \<notin> set a"
  shows "dedent (manifest_fstring g a n) = manifest_text g a n"
proof -
  let ?ls = "[tpl1, tpl2, tpl3 g a, tpl4 n, tpl5, []]"
  have L: "map blank_out (split CHR ''\<newline>'' (manifest_fstring g a n)) = ?ls"
    by (simp add: split_fstring [OF assms] blank_out_lines)
  have M: "foldl margin_step None (indents_of ?ls) = Some sp16"
    by (simp only: indents_of_lines margin_of_lines)
  have S: "map (strip_margin sp16) ?ls =
    [drop 16 tpl1, drop 16 tpl2, drop 16 (tpl3 g a), drop 16 (tpl4 n), drop 16 tpl5, []]"
    by (simp add: strip_margin_lines)
  have "dedent (manifest_fstring g a n) = join ''\<newline>'' (map (strip_margin sp16) ?ls)"
    unfolding dedent_def L Let_def M using margin_of_lines(2) by simp
  also have "\<dots> = manifest_text g a n"
    unfolding S by (simp add: tpl1_def tpl2_def tpl3_def tpl4_def tpl5_def manifest_text_def)
  finally show ?thesis .
qed

section \<open>The loops of the packager\<close>

lemma path_name_child [simp]: "path_name (make_child_relpath p n) = n"
  by (simp add: path_name_def make_child_relpath_def)

lemma glob_child:
  "glob (make_child_relpath p n, t, x) ''*.so'' = children (make_child_relpath p n) (matches x)"
  by (cases x) (simp_all add: glob_def matches_def children_def)

lemma glob_empty_iff: "glob (make_child_relpath p n, t, x) ''*.so'' = [] \<longleftrightarrow> no_match (n, t, x)"
  by (simp add: glob_child children_def no_match_def)

lemma zip_write_storable:
  assumes "storable a (f, u, y)"
  shows "zip_write z (make_child_relpath q f, u, y) (''jni/'' @ a @ ''/'' @ f)
     = (Inr (), z\<lparr>zip_filelist := zip_filelist z @ [lib_entry a (f, u, y)]\<rparr>)"
  using assms
  by (cases y)
     (auto simp: storable_def write_error_def zip_write_def lib_entry_def split: if_splits)

lemma zip_write_unstorable:
  assumes "\<not> storable a (f, u, y)"
  shows "\<exists>e z'. zip_write z (make_child_relpath q f, u, y) (''jni/'' @ a @ ''/'' @ f) = (Inl e, z')"
  using assms
  by (cases y)
     (auto simp: storable_def write_error_def zip_write_def lib_entry_def split: if_splits option.splits)

lemma zip_write_keeps:
  "\<exists>ys. zip_filelist (snd (zip_write z f arcname)) = zip_filelist z @ ys"
  by (auto simp: zip_write_def split: node.splits option.splits)

lemma write_libs_keeps:
  "\<exists>ys. zip_filelist (snd (write_libs z d ls)) = zip_filelist z @ ys"
proof (induction ls arbitrary: z)
  case Nil
  show ?case by simp
next
  case (Cons l ls)
  let ?w = "zip_write z l (''jni/'' @ path_name (fst d) @ ''/'' @ path_name (fst l))"
  obtain r z' where w: "?w = (r, z')" by (cases ?w)
  from zip_write_keeps [of z l "''jni/'' @ path_name (fst d) @ ''/'' @ path_name (fst l)"] w
  obtain ys where ys: "zip_filelist z' = zip_filelist z @ ys" by auto
  show ?case
  proof (cases r)
    case (Inl e)
    with w ys show ?thesis by simp
  next
    case (Inr u)
    from Cons.IH [of z'] obtain zs where "zip_filelist (snd (write_libs z' d ls)) = zip_filelist z' @ zs"
      by blast
    with w ys Inr show ?thesis by simp
  qed
qed

lemma abi_loop_keeps:
  "\<exists>ys. zip_filelist (snd (abi_loop z ds)) = zip_filelist z @ ys"
proof (induction ds arbitrary: z)
  case Nil
  show ?case by simp
next
  case (Cons d ds)
  show ?case
  proof (cases "glob d ''*.so'' = []")
    case True
    then show ?thesis by simp
  next
    case False
    let ?w = "write_libs z d (glob d ''*.so'')"
    obtain r z' where w: "?w = (r, z')" by (cases ?w)
    from write_libs_keeps [of z d "glob d ''*.so''"] w
    obtain ys where ys: "zip_filelist z' = zip_filelist z @ ys" by auto
    show ?thesis
    proof (cases r)
      case (Inl e)
      with w ys False show ?thesis by (simp add: Let_def)
    next
      case (Inr u)
      from Cons.IH [of z'] obtain zs where "zip_filelist (snd (abi_loop z' ds)) = zip_filelist z' @ zs"
        by blast
      with w ys Inr False show ?thesis by (simp add: Let_def)
    qed
  qed
qed

lemma with_exit_filelist: "zip_filelist (snd (with_exit b)) = zip_filelist (snd b)"
  by (simp add: with_exit_def close_def zip_file.truncate_def split: option.splits)

lemma with_exit_ok:
  "zip_unpackable z = None \<Longrightarrow>
   with_exit (r, z) = (r, \<lparr>zip_filename = zip_filename z, zip_filelist = zip_filelist z, zip_closed = True\<rparr>)"
  by (simp add: with_exit_def close_def zip_file.truncate_def)

lemma with_exit_fails: "fst b = Inl e \<Longrightarrow> \<exists>e'. fst (with_exit b) = Inl e'"
  by (auto simp: with_exit_def close_def split: option.splits)

lemma write_libs_storable:
  assumes "list_all (storable a) ls"
  shows "write_libs z (make_child_relpath p a, t, x) (children (make_child_relpath p a) ls)
     = (Inr (), z\<lparr>zip_filelist := zip_filelist z @ map (lib_entry a) ls\<rparr>)"
  using assms
proof (induction ls arbitrary: z)
  case Nil
  show ?case by (simp add: children_def)
next
  case (Cons l ls)
  obtain f u y where l: "l = (f, u, y)" by (cases l)
  from Cons.prems have s: "storable a (f, u, y)" and r: "list_all (storable a) ls"
    by (simp_all add: l)
  have "write_libs z (make_child_relpath p a, t, x) (children (make_child_relpath p a) (l # ls))
      = write_libs (z\<lparr>zip_filelist := zip_filelist z @ [lib_entry a (f, u, y)]\<rparr>)
          (make_child_relpath p a, t, x) (children (make_child_relpath p a) ls)"
    using zip_write_storable [OF s, of z "make_child_relpath p a"]
    by (simp add: children_def l)
  then show ?case by (simp add: Cons.IH [OF r] l)
qed

lemma write_libs_unstorable:
  assumes "\<not> list_all (storable a) ls"
  shows "\<exists>e z'. write_libs z (make_child_relpath p a, t, x) (children (make_child_relpath p a) ls)
     = (Inl e, z')"
  using assms
proof (induction ls arbitrary: z)
  case Nil
  then show ?case by simp
next
  case (Cons l ls)
  obtain f u y where l: "l = (f, u, y)" by (cases l)
  show ?case
  proof (cases "storable a (f, u, y)")
    case True
    with Cons.prems have "\<not> list_all (storable a) ls" by (simp add: l)
    from Cons.IH [OF this] show ?thesis
      using zip_write_storable [OF True, of z "make_child_relpath p a"]
      by (simp add: children_def l)
  next
    case False
    from zip_write_unstorable [OF False, of z "make_child_relpath p a"]
    show ?thesis by (auto simp: children_def l)
  qed
qed

lemma children_Cons:
  "children p ((a, t, x) # es) = (make_child_relpath p a, t, x) # children p es"
  by (simp add: children_def)

lemma abi_loop_head_packs:
  assumes "packs (a, t, x)"
  shows "abi_loop z (children p ((a, t, x) # es))
     = abi_loop (z\<lparr>zip_filelist := zip_filelist z @ abi_entries (a, t, x)\<rparr>) (children p es)"
proof -
  from assms have g: "glob (make_child_relpath p a, t, x) ''*.so'' \<noteq> []"
    using glob_empty_iff [of p a t x] by (simp add: packs_def)
  from assms have s: "list_all (storable a) (matches x)" by (simp add: packs_def storable_child_def)
  show ?thesis
    using g by (simp add: children_Cons Let_def glob_child write_libs_storable [OF s] abi_entries_def)
qed

lemma abi_loop_head_no_match:
  assumes "no_match (a, t, x)"
  shows "abi_loop z (children p ((a, t, x) # es)) = (Inl (no_libraries p a), z)"
  using assms glob_empty_iff [of p a t x] by (simp add: children_Cons no_libraries_def)

lemma abi_loop_head_unstorable:
  assumes "\<not> no_match (a, t, x)" "\<not> storable_child (a, t, x)"
  shows "\<exists>e z'. abi_loop z (children p ((a, t, x) # es)) = (Inl e, z')"
proof -
  from assms(1) have g: "glob (make_child_relpath p a, t, x) ''*.so'' \<noteq> []"
    using glob_empty_iff [of p a t x] by simp
  from assms(2) have "\<not> list_all (storable a) (matches x)" by (simp add: storable_child_def)
  from write_libs_unstorable [OF this, of z p t x] obtain e z' where
    "write_libs z (make_child_relpath p a, t, x) (children (make_child_relpath p a) (matches x)) = (Inl e, z')"
    by blast
  then show ?thesis using g by (simp add: children_Cons Let_def glob_child)
qed

lemma abi_loop_prefix:
  assumes "list_all packs pre"
  shows "abi_loop z (children p (pre @ rest))
     = abi_loop (z\<lparr>zip_filelist := zip_filelist z @ concat (map abi_entries pre)\<rparr>) (children p rest)"
  using assms
proof (induction pre arbitrary: z)
  case Nil
  show ?case by simp
next
  case (Cons d pre)
  obtain a t x where d: "d = (a, t, x)" by (cases d)
  from Cons.prems have h: "packs (a, t, x)" and r: "list_all packs pre" by (simp_all add: d)
  show ?case
    using abi_loop_head_packs [OF h, of z p "pre @ rest"] Cons.IH [OF r]
    by (simp add: d)
qed

lemma abi_loop_success_iff:
  "(fst (abi_loop z (children p es)) = Inr ()) = list_all packs es"
proof (induction es arbitrary: z)
  case Nil
  show ?case by (simp add: children_def)
next
  case (Cons d es)
  obtain a t x where d: "d = (a, t, x)" by (cases d)
  show ?case
  proof (cases "packs (a, t, x)")
    case True
    then show ?thesis using abi_loop_head_packs [OF True, of z p es] Cons.IH by (simp add: d)
  next
    case False
    show ?thesis
    proof (cases "no_match (a, t, x)")
      case True
      with False show ?thesis using abi_loop_head_no_match [OF True, of z p es] by (simp add: d)
    next
      case nm: False
      with False have "\<not> storable_child (a, t, x)" by (simp add: packs_def)
      from abi_loop_head_unstorable [OF nm this, of z p es] False
      show ?thesis by (auto simp: d)
    qed
  qed
qed


text \<open>The whole call on a library directory that exists.\<close>

lemma generate_aar_iterdir:
  assumes "fs library_dir = Some (Dir es)"
  shows "generate_aar fs output_path library_dir g a n =
     with_exit
       (abi_loop
          \<lparr>zip_filename = output_path,
           zip_filelist = [(''AndroidManifest.xml'', dedent (manifest_fstring g a n))],
           zip_closed = False, zip_unpackable = None\<rparr>
          (children library_dir es))"
proof -
  have "iterdir fs library_dir = Inr (children library_dir es)"
    using assms by (simp add: iterdir_def children_def)
  then show ?thesis by (simp add: generate_aar_def ZipFile_def writestr_def)
qed

lemma generate_aar_no_match:
  assumes "fs library_dir = Some (Dir (pre @ (c, t, x) # post))"
    and "list_all packs pre" and "no_match (c, t, x)"
  shows "generate_aar fs output_path library_dir g a n =
     (Inl (no_libraries library_dir c),
      \<lparr>zip_filename = output_path,
       zip_filelist = (''AndroidManifest.xml'', dedent (manifest_fstring g a n))
         # concat (map abi_entries pre),
       zip_closed = True\<rparr>)"
  unfolding generate_aar_iterdir [of fs library_dir, OF assms(1)] abi_loop_prefix [OF assms(2)]
    abi_loop_head_no_match [OF assms(3)]
  by (simp add: with_exit_ok)

lemma generate_aar_packs:
  assumes "fs library_dir = Some (Dir es)" and "list_all packs es"
  shows "generate_aar fs output_path library_dir g a n =
     (Inr (),
      \<lparr>zip_filename = output_path,
       zip_filelist = (''AndroidManifest.xml'', dedent (manifest_fstring g a n))
         # concat (map abi_entries es),
       zip_closed = True\<rparr>)"
proof -
  have "children library_dir es = children library_dir (es @ [])" by simp
  then show ?thesis
    unfolding generate_aar_iterdir [of fs library_dir, OF assms(1)]
    by (simp only: abi_loop_prefix [OF assms(2)]) (simp add: children_def with_exit_ok)
qed

lemma generate_aar_success_iff:
  assumes "fs library_dir = Some (Dir es)"
  shows "(fst (generate_aar fs output_path library_dir g a n) = Inr ()) = list_all packs es"
proof (cases "list_all packs es")
  case True
  then show ?thesis using generate_aar_packs [of fs library_dir, OF assms True] by simp
next
  case False
  let ?b = "abi_loop
          \<lparr>zip_filename = output_path,
           zip_filelist = [(''AndroidManifest.xml'', dedent (manifest_fstring g a n))],
           zip_closed = False, zip_unpackable = None\<rparr>
          (children library_dir es)"
  from False have "fst ?b \<noteq> Inr ()" by (simp add: abi_loop_success_iff)
  then obtain e where "fst ?b = Inl e" by (cases "fst ?b") auto
  from with_exit_fails [OF this] False show ?thesis
    unfolding generate_aar_iterdir [of fs library_dir, OF assms] by auto
qed

section \<open>The first child without a match\<close>

lemma first_no_match:
  assumes "d \<in> set es" "no_match d"
  shows "\<exists>pre d' post. es = pre @ d' # post \<and> no_match d' \<and> (\<forall>e \<in> set pre. \<not> no_match e)"
  using assms
proof (induction es)
  case Nil
  then show ?case by simp
next
  case (Cons e es)
  show ?case
  proof (cases "no_match e")
    case True
    then have "e # es = [] @ e # es \<and> no_match e \<and> (\<forall>e \<in> set []. \<not> no_match e)" by simp
    then show ?thesis by blast
  next
    case False
    with Cons.prems have "d \<in> set es" by auto
    from Cons.IH [OF this Cons.prems(2)] obtain pre d' post where
      h: "es = pre @ d' # post" "no_match d'" "\<forall>e \<in> set pre. \<not> no_match e" by blast
    have "e # es = (e # pre) @ d' # post \<and> no_match d' \<and> (\<forall>x \<in> set (e # pre). \<not> no_match x)"
      using h False by simp
    then show ?thesis by blast
  qed
qed

lemma no_match_fails:
  assumes "fs library_dir = Some (Dir es)" and "d \<in> set es" and "no_match d"
  shows "\<exists>e. fst (generate_aar fs output_path library_dir g a n) = Inl e"
proof -
  from assms(2,3) have "\<not> list_all packs es" by (auto simp: list_all_iff packs_def)
  then have "fst (generate_aar fs output_path library_dir g a n) \<noteq> Inr ()"
    using generate_aar_success_iff [of fs library_dir, OF assms(1)] by simp
  then show ?thesis by (cases "fst (generate_aar fs output_path library_dir g a n)") auto
qed

lemma packs_prefix:
  "\<forall>e \<in> set pre. \<not> no_match e \<Longrightarrow> list_all storable_child pre \<Longrightarrow> list_all packs pre"
  by (simp add: list_all_iff packs_def)

section \<open>Evaluating the examples\<close>

lemma mount_self [simp]: "mount p x p = Some x"
  by (simp add: mount_def)

lemma ascii_utf8_bytes: "\<forall>b \<in> set bs. b < 128 \<Longrightarrow> utf8_bytes bs"
  by (induction bs rule: utf8_bytes.induct) auto

lemmas eval_defs = no_match_def matches_def fnmatch_def endswith_def no_libraries_def
  str_path_def make_child_relpath_def abi_entries_def lib_entry_def

lemmas storable_defs = packs_def storable_child_def storable_def write_error_def
  header_error_def utf8_valid_def

text \<open>
  A library that the archive cannot store makes the call raise at its write, before the
  check of the next child; an unstorable directory entry makes \<open>close\<close> raise as well
  and leaves the file without its central directory.
\<close>

lemma old_library_raises:
  "generate_aar (mount lib_path (Dir old_library_tree)) out_path lib_path ''com.example'' ''foo'' 26
     = (Inl (ValueError ''ZIP does not support timestamps before 1980''),
        \<lparr>zip_filename = out_path,
         zip_filelist =
           [(''AndroidManifest.xml'', dedent (manifest_fstring ''com.example'' ''foo'' 26))],
         zip_closed = True\<rparr>)"
proof -
  have h: "mount lib_path (Dir old_library_tree) lib_path = Some (Dir old_library_tree)"
    by simp
  show ?thesis
    unfolding generate_aar_iterdir [of "mount lib_path (Dir old_library_tree)" lib_path, OF h]
    by (simp add: old_library_tree_def children_def glob_def fnmatch_def endswith_def
        zip_write_def with_exit_def close_def zip_file.truncate_def)
qed

lemma late_so_dir_raises:
  "generate_aar (mount lib_path (Dir late_so_dir_tree)) out_path lib_path ''com.example'' ''foo'' 26
     = (Inl StructError,
        \<lparr>zip_filename = out_path,
         zip_filelist =
           [(''AndroidManifest.xml'', dedent (manifest_fstring ''com.example'' ''foo'' 26)),
            (''jni/arm64-v8a/x.so/'', [])],
         zip_closed = False\<rparr>)"
proof -
  have h: "mount lib_path (Dir late_so_dir_tree) lib_path = Some (Dir late_so_dir_tree)"
    by simp
  show ?thesis
    unfolding generate_aar_iterdir [of "mount lib_path (Dir late_so_dir_tree)" lib_path, OF h]
    by (simp add: late_so_dir_tree_def children_def glob_def fnmatch_def endswith_def
        zip_write_def header_error_def utf8_valid_def with_exit_def close_def
        zip_file.truncate_def)
qed

section \<open>The claims\<close>

subsection \<open>C1: the entries of the archive\<close>

lemma slash_split_unique:
  "a @ CHR ''/'' # f = a' @ CHR ''/'' # f' \<Longrightarrow> CHR ''/'' \<notin> set a \<Longrightarrow> CHR ''/'' \<notin> set a'
     \<Longrightarrow> a = a' \<and> f = f'"
proof (induction a arbitrary: a')
  case Nil
  then show ?case by (cases a') auto
next
  case (Cons c a)
  then show ?case by (cases a') auto
qed

lemma abi_dir_ok_files:
  assumes "abi_dir_ok (abi, t, Dir sub)"
  shows "\<forall>l \<in> set (matches (Dir sub)). \<exists>data. snd (snd l) = File data"
  using assms by (auto simp: abi_dir_ok_def list_all_iff split: node.splits)

lemma abi_entries_set:
  assumes "abi_dir_ok (abi, t, Dir sub)"
  shows "set (abi_entries (abi, t, Dir sub))
     = {(''jni/'' @ abi @ ''/'' @ f, data) | f u data.
          (f, u, File data) \<in> set sub \<and> fnmatch f ''*.so''}"
proof (intro set_eqI iffI)
  fix e assume "e \<in> set (abi_entries (abi, t, Dir sub))"
  then obtain f u y where l: "(f, u, y) \<in> set (matches (Dir sub))" "e = lib_entry abi (f, u, y)"
    by (auto simp: abi_entries_def)
  with abi_dir_ok_files [OF assms] obtain data where "y = File data" by fastforce
  with l show "e \<in> {(''jni/'' @ abi @ ''/'' @ f, data) | f u data.
        (f, u, File data) \<in> set sub \<and> fnmatch f ''*.so''}"
    by (auto simp: matches_def lib_entry_def)
next
  fix e assume "e \<in> {(''jni/'' @ abi @ ''/'' @ f, data) | f u data.
        (f, u, File data) \<in> set sub \<and> fnmatch f ''*.so''}"
  then obtain f u data where h: "e = (''jni/'' @ abi @ ''/'' @ f, data)"
    "(f, u, File data) \<in> set sub" "fnmatch f ''*.so''" by blast
  then have "(f, u, File data) \<in> set (matches (Dir sub))" by (simp add: matches_def)
  then have "lib_entry abi (f, u, File data) \<in> set (abi_entries (abi, t, Dir sub))"
    by (force simp: abi_entries_def)
  with h show "e \<in> set (abi_entries (abi, t, Dir sub))" by (simp add: lib_entry_def)
qed

lemma abi_entries_names:
  assumes "abi_dir_ok (abi, t, Dir sub)"
  shows "map fst (abi_entries (abi, t, Dir sub))
     = map (\<lambda>f. ''jni/'' @ abi @ ''/'' @ f) (map fst (matches (Dir sub)))"
proof -
  have "fst (lib_entry abi l) = ''jni/'' @ abi @ ''/'' @ fst l" if "l \<in> set (matches (Dir sub))"
    for l
    using abi_dir_ok_files [OF assms] that by (auto simp: lib_entry_def)
  then show ?thesis by (simp add: abi_entries_def)
qed

lemma abi_entries_distinct:
  assumes "abi_dir_ok (abi, t, Dir sub)"
  shows "distinct (map fst (abi_entries (abi, t, Dir sub)))"
proof -
  have "distinct (map fst sub)" using assms by (simp add: abi_dir_ok_def)
  then have "distinct (map fst (matches (Dir sub)))"
    by (simp add: matches_def distinct_map_filter)
  then show ?thesis
    unfolding abi_entries_names [OF assms] by (simp add: distinct_map inj_on_def)
qed

lemma abi_dir_ok_Dir: "abi_dir_ok (abi, t, x) \<Longrightarrow> \<exists>sub. x = Dir sub"
  by (cases x) (simp_all add: abi_dir_ok_def)

lemma abi_dir_ok_packs: "abi_dir_ok d \<Longrightarrow> packs d"
  by (cases "snd (snd d)") (simp_all add: abi_dir_ok_def packs_def no_match_def)

lemma lib_names_distinct:
  assumes "distinct (map fst es)" "list_all abi_dir_ok es"
  shows "distinct (map fst (concat (map abi_entries es)))"
  using assms
proof (induction es)
  case Nil
  show ?case by simp
next
  case (Cons e es)
  obtain abi t x where e: "e = (abi, t, x)" by (cases e)
  from Cons.prems have ok: "abi_dir_ok (abi, t, x)" by (simp add: e)
  then obtain sub where x: "x = Dir sub" using abi_dir_ok_Dir by blast
  have slash: "CHR ''/'' \<notin> set abi" using ok by (simp add: abi_dir_ok_def x)
  have IH: "distinct (map fst (concat (map abi_entries es)))"
    using Cons by simp
  have disj: "set (map fst (abi_entries (abi, t, Dir sub)))
      \<inter> set (map fst (concat (map abi_entries es))) = {}"
  proof (rule ccontr)
    assume "\<not> ?thesis"
    then obtain nm where nm1: "nm \<in> set (map fst (abi_entries (abi, t, Dir sub)))"
      and nm2: "nm \<in> set (map fst (concat (map abi_entries es)))" by blast
    from nm1 obtain f where f: "nm = ''jni/'' @ abi @ ''/'' @ f"
      unfolding abi_entries_names [OF ok [unfolded x]] by auto
    from nm2 obtain d where d: "d \<in> set es" "nm \<in> set (map fst (abi_entries d))" by auto
    obtain abi' t' x' where d': "d = (abi', t', x')" by (cases d)
    from Cons.prems(2) d have ok': "abi_dir_ok (abi', t', x')" by (auto simp: list_all_iff d')
    then obtain sub' where x': "x' = Dir sub'" using abi_dir_ok_Dir by blast
    have slash': "CHR ''/'' \<notin> set abi'" using ok' by (simp add: abi_dir_ok_def x')
    from d(2) obtain f' where f': "nm = ''jni/'' @ abi' @ ''/'' @ f'"
      unfolding d' x' abi_entries_names [OF ok' [unfolded x']] by auto
    from f f' have "abi @ CHR ''/'' # f = abi' @ CHR ''/'' # f'" by simp
    from slash_split_unique [OF this slash slash'] have "abi = abi'" by simp
    moreover from Cons.prems(1) d(1) have "abi \<noteq> abi'" by (force simp: e d')
    ultimately show False by simp
  qed
  show ?case using IH disj abi_entries_distinct [OF ok [unfolded x]] by (simp add: e x)
qed

lemma lib_names_jni:
  assumes "list_all abi_dir_ok es" "nm \<in> set (map fst (concat (map abi_entries es)))"
  shows "take 4 nm = ''jni/''"
proof -
  from assms(2) obtain d where d: "d \<in> set es" "nm \<in> set (map fst (abi_entries d))" by auto
  obtain abi t x where d': "d = (abi, t, x)" by (cases d)
  from assms(1) d have ok: "abi_dir_ok (abi, t, x)" by (auto simp: list_all_iff d')
  then obtain sub where x: "x = Dir sub" using abi_dir_ok_Dir by blast
  from d(2) obtain f where "nm = ''jni/'' @ abi @ ''/'' @ f"
    unfolding d' x abi_entries_names [OF ok [unfolded x]] by auto
  then show ?thesis by simp
qed

lemma lib_entries_set:
  assumes "list_all abi_dir_ok es"
  shows "set (concat (map abi_entries es))
     = {(''jni/'' @ abi @ ''/'' @ f, data) | abi t sub f u data.
          (abi, t, Dir sub) \<in> set es \<and> (f, u, File data) \<in> set sub \<and> fnmatch f ''*.so''}"
  using assms
proof (induction es)
  case Nil
  show ?case by simp
next
  case (Cons e es)
  obtain abi t x where e: "e = (abi, t, x)" by (cases e)
  from Cons.prems have ok: "abi_dir_ok (abi, t, x)" by (simp add: e)
  then obtain sub where x: "x = Dir sub" using abi_dir_ok_Dir by blast
  have IH: "set (concat (map abi_entries es))
     = {(''jni/'' @ abi @ ''/'' @ f, data) | abi t sub f u data.
          (abi, t, Dir sub) \<in> set es \<and> (f, u, File data) \<in> set sub \<and> fnmatch f ''*.so''}"
    using Cons by simp
  have "set (concat (map abi_entries (e # es)))
      = {(''jni/'' @ abi @ ''/'' @ f, data) | f u data.
           (f, u, File data) \<in> set sub \<and> fnmatch f ''*.so''}
        \<union> {(''jni/'' @ abi @ ''/'' @ f, data) | abi t sub f u data.
           (abi, t, Dir sub) \<in> set es \<and> (f, u, File data) \<in> set sub \<and> fnmatch f ''*.so''}"
    unfolding e x using abi_entries_set [OF ok [unfolded x]] IH
    by (simp only: list.map concat.simps set_append)
  also have "\<dots> = {(''jni/'' @ abi @ ''/'' @ f, data) | abi t sub f u data.
           (abi, t, Dir sub) \<in> set (e # es) \<and> (f, u, File data) \<in> set sub
           \<and> fnmatch f ''*.so''}"
  proof (intro set_eqI iffI)
    fix y
    assume "y \<in> {(''jni/'' @ abi @ ''/'' @ f, data) | f u data.
           (f, u, File data) \<in> set sub \<and> fnmatch f ''*.so''}
        \<union> {(''jni/'' @ abi @ ''/'' @ f, data) | abi t sub f u data.
           (abi, t, Dir sub) \<in> set es \<and> (f, u, File data) \<in> set sub \<and> fnmatch f ''*.so''}"
    then consider
      (hd) f u data where "y = (''jni/'' @ abi @ ''/'' @ f, data)" "(f, u, File data) \<in> set sub"
        "fnmatch f ''*.so''"
      | (tl) abi' t' sub' f u data where "y = (''jni/'' @ abi' @ ''/'' @ f, data)"
        "(abi', t', Dir sub') \<in> set es" "(f, u, File data) \<in> set sub'" "fnmatch f ''*.so''"
      by blast
    then show "y \<in> {(''jni/'' @ abi @ ''/'' @ f, data) | abi t sub f u data.
           (abi, t, Dir sub) \<in> set (e # es) \<and> (f, u, File data) \<in> set sub
           \<and> fnmatch f ''*.so''}"
    proof cases
      case hd
      have "(abi, t, Dir sub) \<in> set (e # es)" by (simp add: e x)
      with hd show ?thesis by blast
    next
      case tl
      then have "(abi', t', Dir sub') \<in> set (e # es)" by simp
      with tl show ?thesis by blast
    qed
  next
    fix y
    assume "y \<in> {(''jni/'' @ abi @ ''/'' @ f, data) | abi t sub f u data.
           (abi, t, Dir sub) \<in> set (e # es) \<and> (f, u, File data) \<in> set sub
           \<and> fnmatch f ''*.so''}"
    then obtain abi' t' sub' f u data where y: "y = (''jni/'' @ abi' @ ''/'' @ f, data)"
      "(abi', t', Dir sub') \<in> set (e # es)" "(f, u, File data) \<in> set sub'"
      "fnmatch f ''*.so''" by blast
    from y(2) consider "abi' = abi \<and> sub' = sub" | "(abi', t', Dir sub') \<in> set es"
      by (auto simp: e x)
    then show "y \<in> {(''jni/'' @ abi @ ''/'' @ f, data) | f u data.
           (f, u, File data) \<in> set sub \<and> fnmatch f ''*.so''}
        \<union> {(''jni/'' @ abi @ ''/'' @ f, data) | abi t sub f u data.
           (abi, t, Dir sub) \<in> set es \<and> (f, u, File data) \<in> set sub \<and> fnmatch f ''*.so''}"
    proof cases
      case 1
      with y show ?thesis by blast
    next
      case 2
      with y show ?thesis by blast
    qed
  qed
  finally show ?case .
qed

text \<open>
  Claim C1 says that when every child of the library directory is an ABI directory with
  a file matching \<open>*.so\<close>, the archive holds the manifest, one entry
  \<open>jni/<abi>/<file>\<close> with the bytes of each matching file, and nothing else. The
  match goes by name alone: here the ABI directory holds a library and a subdirectory
  named \<open>x.so\<close>, and the subdirectory goes into the archive as a third entry,
  \<open>jni/arm64-v8a/x.so/\<close>, without bytes.
\<close>

theorem generate_aar_entries_counterexample:
  "abi_layout so_dir_tree
   \<and> generate_aar (mount lib_path (Dir so_dir_tree)) out_path lib_path ''com.example'' ''foo'' 26
     = (Inr (),
        \<lparr>zip_filename = out_path,
         zip_filelist = [(''AndroidManifest.xml'', manifest_text ''com.example'' ''foo'' 26),
                         (''jni/arm64-v8a/libfoo.so'', ''ELF''),
                         (''jni/arm64-v8a/x.so/'', [])],
         zip_closed = True\<rparr>)"
proof -
  have m: "dedent (manifest_fstring ''com.example'' ''foo'' 26)
      = manifest_text ''com.example'' ''foo'' 26"
    by (rule dedent_manifest) simp_all
  have p: "list_all packs so_dir_tree"
    by (simp add: so_dir_tree_def storable_defs eval_defs)
  have h: "mount lib_path (Dir so_dir_tree) lib_path = Some (Dir so_dir_tree)" by simp
  have e: "concat (map abi_entries so_dir_tree)
      = [(''jni/arm64-v8a/libfoo.so'', ''ELF''), (''jni/arm64-v8a/x.so/'', [])]"
    by (simp add: so_dir_tree_def eval_defs)
  have l: "abi_layout so_dir_tree"
    by (simp add: abi_layout_def has_library_def so_dir_tree_def fnmatch_def endswith_def)
  show ?thesis
    unfolding generate_aar_packs [of "mount lib_path (Dir so_dir_tree)" lib_path, OF h p] m e
    using l by simp
qed

text \<open>
  Claim C1, amended. When every child of the library directory is an ABI directory that
  has an entry matching \<open>*.so\<close>, and every entry matching \<open>*.so\<close> is a regular file
  that the archive can store (a modification year from 1980 to 2107, an archive name
  that is UTF-8 and at most 65535 bytes long), \<open>generate_aar\<close> returns normally and
  leaves a closed archive at the output path with these entries and no others, no entry
  name occurring twice: \<open>AndroidManifest.xml\<close>, and for each matching file \<open>f\<close> of each
  ABI directory \<open>a\<close> the entry \<open>jni/a/f\<close> with the bytes of the file. The names are
  those of a real directory tree, as \<open>library_dir_ok\<close> says: no name twice in a
  directory, no slash in a name.
\<close>

theorem generate_aar_entries:
  assumes "fs library_dir = Some (Dir es)" and "library_dir_ok es"
  shows "fst (generate_aar fs output_path library_dir group_id artifact_id min_sdk_version) = Inr ()
     \<and> zip_closed (snd (generate_aar fs output_path library_dir group_id artifact_id min_sdk_version))
     \<and> zip_filename (snd (generate_aar fs output_path library_dir group_id artifact_id min_sdk_version))
         = output_path
     \<and> distinct (map fst (zip_filelist
         (snd (generate_aar fs output_path library_dir group_id artifact_id min_sdk_version))))
     \<and> set (zip_filelist
         (snd (generate_aar fs output_path library_dir group_id artifact_id min_sdk_version)))
       = {(''AndroidManifest.xml'', dedent (manifest_fstring group_id artifact_id min_sdk_version))}
         \<union> {(''jni/'' @ abi @ ''/'' @ f, data) | abi t sub f u data.
              (abi, t, Dir sub) \<in> set es \<and> (f, u, File data) \<in> set sub \<and> fnmatch f ''*.so''}"
proof -
  from assms(2) have ok: "list_all abi_dir_ok es" and dist: "distinct (map fst es)"
    by (simp_all add: library_dir_ok_def)
  from ok have p: "list_all packs es" using abi_dir_ok_packs by (auto simp: list_all_iff)
  have "''AndroidManifest.xml'' \<notin> set (map fst (concat (map abi_entries es)))"
    using lib_names_jni [OF ok, of "''AndroidManifest.xml''"] by auto
  then show ?thesis
    unfolding generate_aar_packs [of fs library_dir, OF assms(1) p]
    using lib_names_distinct [OF dist ok] lib_entries_set [OF ok] by simp
qed

text \<open>The amended statement at the library directory of the specification's example.\<close>

theorem generate_aar_entries_witness:
  "mount lib_path (Dir two_abi_tree) lib_path = Some (Dir two_abi_tree)
   \<and> library_dir_ok two_abi_tree
   \<and> fst (generate_aar (mount lib_path (Dir two_abi_tree)) out_path lib_path
            ''com.example'' ''foo'' 26) = Inr ()
   \<and> distinct (map fst (zip_filelist
         (snd (generate_aar (mount lib_path (Dir two_abi_tree)) out_path lib_path
                 ''com.example'' ''foo'' 26))))
   \<and> zip_filelist
         (snd (generate_aar (mount lib_path (Dir two_abi_tree)) out_path lib_path
                 ''com.example'' ''foo'' 26))
       = [(''AndroidManifest.xml'', dedent (manifest_fstring ''com.example'' ''foo'' 26)),
          (''jni/arm64-v8a/libfoo.so'', ''ELF-arm''),
          (''jni/x86_64/libfoo.so'', ''ELF-x86'')]"
proof -
  have h1: "mount lib_path (Dir two_abi_tree) lib_path = Some (Dir two_abi_tree)" by simp
  have h2: "library_dir_ok two_abi_tree"
    by (simp add: library_dir_ok_def abi_dir_ok_def two_abi_tree_def storable_defs eval_defs)
  have c: "concat (map abi_entries two_abi_tree)
      = [(''jni/arm64-v8a/libfoo.so'', ''ELF-arm''), (''jni/x86_64/libfoo.so'', ''ELF-x86'')]"
    by (simp add: two_abi_tree_def eval_defs)
  from generate_aar_entries [of "mount lib_path (Dir two_abi_tree)" lib_path two_abi_tree
      out_path "''com.example''" "''foo''" 26, OF h1 h2]
  have t: "fst (generate_aar (mount lib_path (Dir two_abi_tree)) out_path lib_path
            ''com.example'' ''foo'' 26) = Inr ()
    \<and> distinct (map fst (zip_filelist
         (snd (generate_aar (mount lib_path (Dir two_abi_tree)) out_path lib_path
                 ''com.example'' ''foo'' 26))))"
    by blast
  then have "list_all packs two_abi_tree"
    using generate_aar_success_iff [of "mount lib_path (Dir two_abi_tree)" lib_path, OF h1]
    by simp
  from generate_aar_packs [of "mount lib_path (Dir two_abi_tree)" lib_path, OF h1 this]
  have "zip_filelist
         (snd (generate_aar (mount lib_path (Dir two_abi_tree)) out_path lib_path
                 ''com.example'' ''foo'' 26))
       = [(''AndroidManifest.xml'', dedent (manifest_fstring ''com.example'' ''foo'' 26)),
          (''jni/arm64-v8a/libfoo.so'', ''ELF-arm''),
          (''jni/x86_64/libfoo.so'', ''ELF-x86'')]"
    by (simp add: c)
  with t h1 h2 show ?thesis by simp
qed

subsection \<open>C2: the manifest entry\<close>

lemma generate_aar_first_entry:
  "take 1 (zip_filelist (snd (generate_aar fs output_path library_dir g a n)))
     = [(''AndroidManifest.xml'', dedent (manifest_fstring g a n))]"
proof -
  let ?z = "writestr (ZipFile output_path) ''AndroidManifest.xml''
              (dedent (manifest_fstring g a n))"
  have z: "zip_filelist ?z = [(''AndroidManifest.xml'', dedent (manifest_fstring g a n))]"
    by (simp add: writestr_def ZipFile_def)
  show ?thesis
  proof (cases "iterdir fs library_dir")
    case (Inl e)
    then show ?thesis by (simp add: generate_aar_def with_exit_filelist z)
  next
    case (Inr ds)
    from abi_loop_keeps [of ?z ds] obtain ys where
      "zip_filelist (snd (abi_loop ?z ds)) = zip_filelist ?z @ ys" by blast
    with Inr show ?thesis by (simp add: generate_aar_def with_exit_filelist z)
  qed
qed

text \<open>
  Claim C2 says that for every call the manifest entry is the manifest document with
  \<open>package\<close> equal to the group and artifact identifiers joined by a dot. The template
  is filled in before it is dedented: with a line feed inside the group identifier the
  second half of the \<open>package\<close> line starts at column 0, the common margin is empty, and
  the entry keeps the indentation of the source, so it starts with sixteen spaces and not
  with the XML declaration.
\<close>

theorem generate_aar_manifest_counterexample:
  "generate_aar (mount lib_path (Dir [])) out_path lib_path ''com\<newline>example'' ''foo'' 26
     = (Inr (),
        \<lparr>zip_filename = out_path,
         zip_filelist =
           [(''AndroidManifest.xml'',
             ''                <?xml version=\"1.0\" encoding=\"utf-8\"?>\<newline>''
             @ ''                <manifest xmlns:android=\"http://schemas.android.com/apk/res/android\"\<newline>''
             @ ''                    package=\"com\<newline>''
             @ ''example.foo\" >\<newline>''
             @ ''                    <uses-sdk android:minSdkVersion=\"26\" />\<newline>''
             @ ''                </manifest>\<newline>'')],
         zip_closed = True\<rparr>)
   \<and> dedent (manifest_fstring ''com\<newline>example'' ''foo'' 26)
       \<noteq> manifest_text ''com\<newline>example'' ''foo'' 26"
proof -
  have s: "str_int 26 = ''26''"
    by (simp add: str_int_def str_nat.simps digit_char_def)
  have d: "dedent (manifest_fstring ''com\<newline>example'' ''foo'' 26)
     = ''                <?xml version=\"1.0\" encoding=\"utf-8\"?>\<newline>''
       @ ''                <manifest xmlns:android=\"http://schemas.android.com/apk/res/android\"\<newline>''
       @ ''                    package=\"com\<newline>''
       @ ''example.foo\" >\<newline>''
       @ ''                    <uses-sdk android:minSdkVersion=\"26\" />\<newline>''
       @ ''                </manifest>\<newline>''"
    by (simp add: dedent_def manifest_fstring_def s blank_out_def indents_of_def is_blank_def
        margin_step_def startswith_def)
  have "generate_aar (mount lib_path (Dir [])) out_path lib_path ''com\<newline>example'' ''foo'' 26
     = (Inr (),
        \<lparr>zip_filename = out_path,
         zip_filelist =
           [(''AndroidManifest.xml'', dedent (manifest_fstring ''com\<newline>example'' ''foo'' 26))],
         zip_closed = True\<rparr>)"
    using generate_aar_packs [of "mount lib_path (Dir [])" lib_path "[]"] by simp
  moreover have "dedent (manifest_fstring ''com\<newline>example'' ''foo'' 26)
       \<noteq> manifest_text ''com\<newline>example'' ''foo'' 26"
    unfolding d by (simp add: manifest_text_def)
  ultimately show ?thesis unfolding d by simp
qed

text \<open>
  Claim C2, amended. For every call to \<open>generate_aar\<close> whose group and artifact
  identifiers hold no line feed, the first entry written to the archive is named
  \<open>AndroidManifest.xml\<close> and its content is this text: the XML declaration, the root
  \<open>manifest\<close> element with the \<open>xmlns:android\<close> declaration and with
  \<open>package="<group_id>.<artifact_id>"\<close>, its one child \<open>uses-sdk\<close> with
  \<open>android:minSdkVersion="<min_sdk_version>"\<close> in decimal, and the closing tag. The
  identifiers go in as they are, without XML escaping. This holds whether the call
  returns or raises.
\<close>

theorem generate_aar_manifest:
  assumes "CHR ''\<newline>'' \<notin> set group_id" and "CHR ''\<newline>'' \<notin> set artifact_id"
  shows "take 1 (zip_filelist
            (snd (generate_aar fs output_path library_dir group_id artifact_id min_sdk_version)))
     = [(''AndroidManifest.xml'',
         ''<?xml version=\"1.0\" encoding=\"utf-8\"?>\<newline>''
         @ ''<manifest xmlns:android=\"http://schemas.android.com/apk/res/android\"\<newline>''
         @ ''    package=\"'' @ group_id @ ''.'' @ artifact_id @ ''\" >\<newline>''
         @ ''    <uses-sdk android:minSdkVersion=\"'' @ str_int min_sdk_version @ ''\" />\<newline>''
         @ ''</manifest>\<newline>'')]"
  using dedent_manifest [OF assms, of min_sdk_version]
  by (simp only: generate_aar_first_entry manifest_text_def)

text \<open>The amended statement for \<open>com.example\<close>, \<open>foo\<close> and 26.\<close>

theorem generate_aar_manifest_witness:
  "CHR ''\<newline>'' \<notin> set ''com.example'' \<and> CHR ''\<newline>'' \<notin> set ''foo''
   \<and> take 1 (zip_filelist
         (snd (generate_aar (mount lib_path (Dir two_abi_tree)) out_path lib_path
                 ''com.example'' ''foo'' 26)))
     = [(''AndroidManifest.xml'',
         ''<?xml version=\"1.0\" encoding=\"utf-8\"?>\<newline>''
         @ ''<manifest xmlns:android=\"http://schemas.android.com/apk/res/android\"\<newline>''
         @ ''    package=\"com.example.foo\" >\<newline>''
         @ ''    <uses-sdk android:minSdkVersion=\"26\" />\<newline>''
         @ ''</manifest>\<newline>'')]"
proof -
  have h1: "CHR ''\<newline>'' \<notin> set ''com.example''" by simp
  have h2: "CHR ''\<newline>'' \<notin> set ''foo''" by simp
  have s: "str_int 26 = ''26''"
    by (simp add: str_int_def str_nat.simps digit_char_def)
  from generate_aar_manifest [OF h1 h2, of "mount lib_path (Dir two_abi_tree)" out_path
      lib_path 26]
  show ?thesis using h1 h2 unfolding s by simp
qed

subsection \<open>C3: a child without a library makes the call fail\<close>

text \<open>
  Claim C3 says that the call fails whenever some immediate subdirectory holds zero
  files matching \<open>*.so\<close>. The match goes by name alone: here the one ABI directory
  holds no file at all, only a subdirectory named \<open>x.so\<close>, and the call returns
  normally, with the subdirectory as an entry of the archive.
\<close>

theorem generate_aar_no_libraries_counterexample:
  "\<not> has_library (Dir [(''x.so'', 2024, Dir [])])
   \<and> so_dir_only_tree = [(''arm64-v8a'', 2024, Dir [(''x.so'', 2024, Dir [])])]
   \<and> generate_aar (mount lib_path (Dir so_dir_only_tree)) out_path lib_path
        ''com.example'' ''foo'' 26
     = (Inr (),
        \<lparr>zip_filename = out_path,
         zip_filelist = [(''AndroidManifest.xml'', manifest_text ''com.example'' ''foo'' 26),
                         (''jni/arm64-v8a/x.so/'', [])],
         zip_closed = True\<rparr>)"
proof -
  have m: "dedent (manifest_fstring ''com.example'' ''foo'' 26)
      = manifest_text ''com.example'' ''foo'' 26"
    by (rule dedent_manifest) simp_all
  have p: "list_all packs so_dir_only_tree"
    by (simp add: so_dir_only_tree_def storable_defs eval_defs)
  have h: "mount lib_path (Dir so_dir_only_tree) lib_path = Some (Dir so_dir_only_tree)"
    by simp
  have e: "concat (map abi_entries so_dir_only_tree) = [(''jni/arm64-v8a/x.so/'', [])]"
    by (simp add: so_dir_only_tree_def eval_defs)
  show ?thesis
    unfolding generate_aar_packs [of "mount lib_path (Dir so_dir_only_tree)" lib_path, OF h p] m e
    by (simp add: has_library_def fnmatch_def endswith_def so_dir_only_tree_def)
qed

text \<open>
  Claim C3, amended. When some immediate subdirectory of the library directory has no
  entry of any kind whose name matches \<open>*.so\<close>, \<open>generate_aar\<close> does not return
  normally: it raises. There is a first child in listing order whose match set is
  empty; when every matching entry of the children listed before it can be stored in
  the archive, the error is \<open>RuntimeError\<close> with the message
  \<open>No libraries found matching <child>/*.so\<close>, which names that child and the pattern
  that found nothing.
\<close>

theorem generate_aar_no_libraries:
  assumes "fs library_dir = Some (Dir es)"
    and "(a, t, Dir sub) \<in> set es"
    and "\<forall>(f, u, y) \<in> set sub. \<not> fnmatch f ''*.so''"
  shows "(\<exists>e. fst (generate_aar fs output_path library_dir group_id artifact_id min_sdk_version)
             = Inl e)
     \<and> (\<exists>pre n u x post. es = pre @ (n, u, x) # post \<and> matches x = []
           \<and> (\<forall>e \<in> set pre. matches (snd (snd e)) \<noteq> []))
     \<and> (\<forall>pre n u x post.
           es = pre @ (n, u, x) # post \<and> matches x = []
           \<and> (\<forall>e \<in> set pre. matches (snd (snd e)) \<noteq> []) \<and> list_all storable_child pre
           \<longrightarrow> fst (generate_aar fs output_path library_dir group_id artifact_id
                      min_sdk_version)
               = Inl (RuntimeError (''No libraries found matching ''
                        @ str_path (make_child_relpath library_dir n) @ ''/*.so'')))"
proof -
  have "matches (Dir sub) = []" using assms(3) by (auto simp: matches_def filter_empty_conv)
  then have nm: "no_match (a, t, Dir sub)" by (simp add: no_match_def)
  have 1: "\<exists>e. fst (generate_aar fs output_path library_dir group_id artifact_id min_sdk_version)
      = Inl e"
    using no_match_fails [of fs library_dir, OF assms(1,2) nm] .
  from first_no_match [OF assms(2) nm] obtain pre d' post where
    h: "es = pre @ d' # post" "no_match d'" "\<forall>e \<in> set pre. \<not> no_match e" by blast
  obtain n u x where d': "d' = (n, u, x)" by (cases d')
  from h d' have 2: "\<exists>pre n u x post. es = pre @ (n, u, x) # post \<and> matches x = []
           \<and> (\<forall>e \<in> set pre. matches (snd (snd e)) \<noteq> [])"
    unfolding no_match_def by fastforce
  have 3: "fst (generate_aar fs output_path library_dir group_id artifact_id min_sdk_version)
      = Inl (RuntimeError (''No libraries found matching ''
               @ str_path (make_child_relpath library_dir n) @ ''/*.so''))"
    if "es = pre @ (n, u, x) # post" "matches x = []"
      "\<forall>e \<in> set pre. matches (snd (snd e)) \<noteq> []" "list_all storable_child pre"
    for pre n u x post
  proof -
    have p: "list_all packs pre"
      using that(3,4) by (intro packs_prefix) (simp_all add: no_match_def)
    have m: "no_match (n, u, x)" using that(2) by (simp add: no_match_def)
    from assms(1) that(1) have f: "fs library_dir = Some (Dir (pre @ (n, u, x) # post))"
      by simp
    show ?thesis
      unfolding generate_aar_no_match [of fs library_dir, OF f p m]
      by (simp add: no_libraries_def)
  qed
  from 1 2 3 show ?thesis by blast
qed

text \<open>
  The amended statement at a library directory whose second ABI directory holds only a
  text file.
\<close>

theorem generate_aar_no_libraries_witness:
  "mount lib_path (Dir empty_abi_tree) lib_path = Some (Dir empty_abi_tree)
   \<and> (''x86_64'', 2024, Dir [(''notes.txt'', 2024, File ''n'')]) \<in> set empty_abi_tree
   \<and> \<not> fnmatch ''notes.txt'' ''*.so''
   \<and> list_all storable_child [(''arm64-v8a'', 2024, Dir [(''libfoo.so'', 2024, File ''ELF'')])]
   \<and> fst (generate_aar (mount lib_path (Dir empty_abi_tree)) out_path lib_path
            ''com.example'' ''foo'' 26)
       = Inl (RuntimeError ''No libraries found matching lib/x86_64/*.so'')"
proof -
  have h1: "mount lib_path (Dir empty_abi_tree) lib_path = Some (Dir empty_abi_tree)" by simp
  have h2: "(''x86_64'', 2024, Dir [(''notes.txt'', 2024, File ''n'')]) \<in> set empty_abi_tree"
    by (simp add: empty_abi_tree_def)
  have h3: "\<forall>(f, u, y) \<in> set [(''notes.txt'', 2024, File ''n'')]. \<not> fnmatch f ''*.so''"
    by (simp add: fnmatch_def endswith_def)
  have d: "empty_abi_tree
      = [(''arm64-v8a'', 2024, Dir [(''libfoo.so'', 2024, File ''ELF'')])]
        @ (''x86_64'', 2024, Dir [(''notes.txt'', 2024, File ''n'')]) # []"
    by (simp add: empty_abi_tree_def)
  have m: "matches (Dir [(''notes.txt'', 2024, File ''n'')]) = []"
    by (simp add: matches_def fnmatch_def endswith_def)
  have p: "\<forall>e \<in> set [(''arm64-v8a'', 2024, Dir [(''libfoo.so'', 2024, File ''ELF'')])].
      matches (snd (snd e)) \<noteq> []"
    by (simp add: matches_def fnmatch_def endswith_def)
  have s: "list_all storable_child
      [(''arm64-v8a'', 2024, Dir [(''libfoo.so'', 2024, File ''ELF'')])]"
    by (simp add: storable_defs eval_defs)
  from generate_aar_no_libraries [of "mount lib_path (Dir empty_abi_tree)" lib_path
      empty_abi_tree "''x86_64''" 2024 "[(''notes.txt'', 2024, File ''n'')]" out_path
      "''com.example''" "''foo''" 26, OF h1 h2 h3] d m p s
  have "fst (generate_aar (mount lib_path (Dir empty_abi_tree)) out_path lib_path
            ''com.example'' ''foo'' 26)
       = Inl (RuntimeError (''No libraries found matching ''
                @ str_path (make_child_relpath lib_path ''x86_64'') @ ''/*.so''))"
    by blast
  then show ?thesis using h1 h2 h3 s
    by (simp add: str_path_def make_child_relpath_def lib_path_def)
qed

subsection \<open>C4: the output file after a failed call\<close>

text \<open>
  Claim C4 says that after a call that failed on an ABI directory without libraries no
  valid, readable archive exists at the output path. The \<open>with\<close> statement closes the
  archive while the exception passes through it, so the file at the output path is a
  complete archive: here it holds the manifest and the library of the first ABI
  directory, and the call raised at the second.
\<close>

theorem generate_aar_failed_output_counterexample:
  "generate_aar (mount lib_path (Dir empty_abi_tree)) out_path lib_path ''com.example'' ''foo'' 26
     = (Inl (RuntimeError ''No libraries found matching lib/x86_64/*.so''),
        \<lparr>zip_filename = out_path,
         zip_filelist = [(''AndroidManifest.xml'', manifest_text ''com.example'' ''foo'' 26),
                         (''jni/arm64-v8a/libfoo.so'', ''ELF'')],
         zip_closed = True\<rparr>)"
proof -
  have m: "dedent (manifest_fstring ''com.example'' ''foo'' 26)
      = manifest_text ''com.example'' ''foo'' 26"
    by (rule dedent_manifest) simp_all
  have f: "mount lib_path (Dir empty_abi_tree) lib_path
      = Some (Dir ([(''arm64-v8a'', 2024, Dir [(''libfoo.so'', 2024, File ''ELF'')])]
          @ (''x86_64'', 2024, Dir [(''notes.txt'', 2024, File ''n'')]) # []))"
    by (simp add: empty_abi_tree_def)
  have p: "list_all packs [(''arm64-v8a'', 2024, Dir [(''libfoo.so'', 2024, File ''ELF'')])]"
    by (simp add: storable_defs eval_defs)
  have n: "no_match (''x86_64'', 2024, Dir [(''notes.txt'', 2024, File ''n'')])"
    by (simp add: eval_defs)
  show ?thesis
    unfolding generate_aar_no_match [of "mount lib_path (Dir empty_abi_tree)" lib_path, OF f p n]
      m
    by (simp add: eval_defs lib_path_def)
qed

text \<open>
  Claim C4, amended. When some immediate subdirectory of the library directory has no
  entry matching \<open>*.so\<close>, the call raises. There is a first child in listing order
  whose match set is empty; when every matching entry of the children listed before it
  can be stored in the archive, the file at the output path has been created and closed
  as an archive that holds the manifest followed by the entries of those children. The
  partial archive is not removed.
\<close>

theorem generate_aar_failed_output:
  assumes "fs library_dir = Some (Dir es)"
    and "(a, t, Dir sub) \<in> set es"
    and "\<forall>(f, u, y) \<in> set sub. \<not> fnmatch f ''*.so''"
  shows "(\<exists>e. fst (generate_aar fs output_path library_dir group_id artifact_id min_sdk_version)
             = Inl e)
     \<and> (\<exists>pre n u x post. es = pre @ (n, u, x) # post \<and> matches x = []
           \<and> (\<forall>e \<in> set pre. matches (snd (snd e)) \<noteq> []))
     \<and> (\<forall>pre n u x post.
           es = pre @ (n, u, x) # post \<and> matches x = []
           \<and> (\<forall>e \<in> set pre. matches (snd (snd e)) \<noteq> []) \<and> list_all storable_child pre
           \<longrightarrow> snd (generate_aar fs output_path library_dir group_id artifact_id
                      min_sdk_version)
               = \<lparr>zip_filename = output_path,
                  zip_filelist =
                    (''AndroidManifest.xml'',
                     dedent (manifest_fstring group_id artifact_id min_sdk_version))
                    # concat (map abi_entries pre),
                  zip_closed = True\<rparr>)"
proof -
  have "matches (Dir sub) = []" using assms(3) by (auto simp: matches_def filter_empty_conv)
  then have nm: "no_match (a, t, Dir sub)" by (simp add: no_match_def)
  have 1: "\<exists>e. fst (generate_aar fs output_path library_dir group_id artifact_id min_sdk_version)
      = Inl e"
    using no_match_fails [of fs library_dir, OF assms(1,2) nm] .
  from first_no_match [OF assms(2) nm] obtain pre d' post where
    h: "es = pre @ d' # post" "no_match d'" "\<forall>e \<in> set pre. \<not> no_match e" by blast
  obtain n u x where d': "d' = (n, u, x)" by (cases d')
  from h d' have 2: "\<exists>pre n u x post. es = pre @ (n, u, x) # post \<and> matches x = []
           \<and> (\<forall>e \<in> set pre. matches (snd (snd e)) \<noteq> [])"
    unfolding no_match_def by fastforce
  have 3: "snd (generate_aar fs output_path library_dir group_id artifact_id min_sdk_version)
      = \<lparr>zip_filename = output_path,
         zip_filelist =
           (''AndroidManifest.xml'',
            dedent (manifest_fstring group_id artifact_id min_sdk_version))
           # concat (map abi_entries pre),
         zip_closed = True\<rparr>"
    if "es = pre @ (n, u, x) # post" "matches x = []"
      "\<forall>e \<in> set pre. matches (snd (snd e)) \<noteq> []" "list_all storable_child pre"
    for pre n u x post
  proof -
    have p: "list_all packs pre"
      using that(3,4) by (intro packs_prefix) (simp_all add: no_match_def)
    have m: "no_match (n, u, x)" using that(2) by (simp add: no_match_def)
    from assms(1) that(1) have f: "fs library_dir = Some (Dir (pre @ (n, u, x) # post))"
      by simp
    show ?thesis
      unfolding generate_aar_no_match [of fs library_dir, OF f p m] by simp
  qed
  from 1 2 3 show ?thesis by blast
qed

text \<open>The amended statement at the same library directory.\<close>

theorem generate_aar_failed_output_witness:
  "mount lib_path (Dir empty_abi_tree) lib_path = Some (Dir empty_abi_tree)
   \<and> (''x86_64'', 2024, Dir [(''notes.txt'', 2024, File ''n'')]) \<in> set empty_abi_tree
   \<and> \<not> fnmatch ''notes.txt'' ''*.so''
   \<and> list_all storable_child [(''arm64-v8a'', 2024, Dir [(''libfoo.so'', 2024, File ''ELF'')])]
   \<and> snd (generate_aar (mount lib_path (Dir empty_abi_tree)) out_path lib_path
             ''com.example'' ''foo'' 26)
        = \<lparr>zip_filename = out_path,
           zip_filelist =
             [(''AndroidManifest.xml'', dedent (manifest_fstring ''com.example'' ''foo'' 26)),
              (''jni/arm64-v8a/libfoo.so'', ''ELF'')],
           zip_closed = True\<rparr>"
proof -
  have h1: "mount lib_path (Dir empty_abi_tree) lib_path = Some (Dir empty_abi_tree)" by simp
  have h2: "(''x86_64'', 2024, Dir [(''notes.txt'', 2024, File ''n'')]) \<in> set empty_abi_tree"
    by (simp add: empty_abi_tree_def)
  have h3: "\<forall>(f, u, y) \<in> set [(''notes.txt'', 2024, File ''n'')]. \<not> fnmatch f ''*.so''"
    by (simp add: fnmatch_def endswith_def)
  have d: "empty_abi_tree
      = [(''arm64-v8a'', 2024, Dir [(''libfoo.so'', 2024, File ''ELF'')])]
        @ (''x86_64'', 2024, Dir [(''notes.txt'', 2024, File ''n'')]) # []"
    by (simp add: empty_abi_tree_def)
  have m: "matches (Dir [(''notes.txt'', 2024, File ''n'')]) = []"
    by (simp add: matches_def fnmatch_def endswith_def)
  have p: "\<forall>e \<in> set [(''arm64-v8a'', 2024, Dir [(''libfoo.so'', 2024, File ''ELF'')])].
      matches (snd (snd e)) \<noteq> []"
    by (simp add: matches_def fnmatch_def endswith_def)
  have s: "list_all storable_child
      [(''arm64-v8a'', 2024, Dir [(''libfoo.so'', 2024, File ''ELF'')])]"
    by (simp add: storable_defs eval_defs)
  from generate_aar_failed_output [of "mount lib_path (Dir empty_abi_tree)" lib_path
      empty_abi_tree "''x86_64''" 2024 "[(''notes.txt'', 2024, File ''n'')]" out_path
      "''com.example''" "''foo''" 26, OF h1 h2 h3] d m p s
  have "snd (generate_aar (mount lib_path (Dir empty_abi_tree)) out_path lib_path
             ''com.example'' ''foo'' 26)
        = \<lparr>zip_filename = out_path,
           zip_filelist =
             (''AndroidManifest.xml'', dedent (manifest_fstring ''com.example'' ''foo'' 26))
             # concat (map abi_entries
                  [(''arm64-v8a'', 2024, Dir [(''libfoo.so'', 2024, File ''ELF'')])]),
           zip_closed = True\<rparr>"
    by blast
  then show ?thesis using h1 h2 h3 s by (simp add: eval_defs)
qed

subsection \<open>C5: running the packager twice\<close>







subsection \<open>C6: the artifact coordinates from the environment\<close>

text \<open>
  Claim C6. When one of \<open>GROUP\<close>, \<open>ARTIFACT\<close>, \<open>VERSION\<close> is not set,
  \<open>artifact_info_from_env\<close> ends the process with the message
  \<open><name> must be set in the environment\<close> for the first missing name, and \<open>main\<close> ends
  with it whatever its later statements are, so none of them runs. When all three are
  set it returns the triple of their values.
\<close>

theorem artifact_info_from_env_spec:
  "(env ''GROUP'' = None \<longrightarrow>
      artifact_info_from_env env = Inl (SystemExit ''GROUP must be set in the environment'')
      \<and> main env rest = Inl (SystemExit ''GROUP must be set in the environment''))
   \<and> (env ''GROUP'' \<noteq> None \<and> env ''ARTIFACT'' = None \<longrightarrow>
      artifact_info_from_env env = Inl (SystemExit ''ARTIFACT must be set in the environment'')
      \<and> main env rest = Inl (SystemExit ''ARTIFACT must be set in the environment''))
   \<and> (env ''GROUP'' \<noteq> None \<and> env ''ARTIFACT'' \<noteq> None \<and> env ''VERSION'' = None \<longrightarrow>
      artifact_info_from_env env = Inl (SystemExit ''VERSION must be set in the environment'')
      \<and> main env rest = Inl (SystemExit ''VERSION must be set in the environment''))
   \<and> (env ''GROUP'' = Some g \<and> env ''ARTIFACT'' = Some a \<and> env ''VERSION'' = Some v \<longrightarrow>
      artifact_info_from_env env = Inr (g, a, v) \<and> main env rest = rest (g, a, v))"
  by (auto simp: artifact_info_from_env_def environ_getitem_def main_def)

text \<open>
  The theorem at an environment without \<open>ARTIFACT\<close> and at one with all three
  variables.
\<close>

theorem artifact_info_from_env_spec_witness:
  "env_no_artifact ''GROUP'' \<noteq> None \<and> env_no_artifact ''ARTIFACT'' = None
   \<and> artifact_info_from_env env_no_artifact
       = Inl (SystemExit ''ARTIFACT must be set in the environment'')
   \<and> main env_no_artifact (\<lambda>info. Inr info)
       = Inl (SystemExit ''ARTIFACT must be set in the environment'')
   \<and> env_full ''GROUP'' = Some ''com.github.user'' \<and> env_full ''ARTIFACT'' = Some ''layers''
   \<and> env_full ''VERSION'' = Some ''1.0''
   \<and> artifact_info_from_env env_full = Inr (''com.github.user'', ''layers'', ''1.0'')"
proof -
  have a: "env_no_artifact ''GROUP'' \<noteq> None \<and> env_no_artifact ''ARTIFACT'' = None"
    by (simp add: env_no_artifact_def)
  have b: "env_full ''GROUP'' = Some ''com.github.user''
     \<and> env_full ''ARTIFACT'' = Some ''layers'' \<and> env_full ''VERSION'' = Some ''1.0''"
    by (simp add: env_full_def)
  from a b
    artifact_info_from_env_spec [of env_no_artifact "\<lambda>info. Inr info"]
    artifact_info_from_env_spec [of env_full "\<lambda>info. Inr info" "''com.github.user''"
      "''layers''" "''1.0''"]
  show ?thesis by blast
qed

subsection \<open>C7: the default ABIs of the NDK\<close>

lemma yield_defaults_bool:
  "\<forall>(n, d) \<in> set kvs. \<exists>kv b. d = JDict kv \<and> map_of kv ''default'' = Some (JBool b) \<Longrightarrow>
   yield_defaults kvs
     = (map fst (filter (\<lambda>(n, d). getitem d ''default'' = Inr (JBool True)) kvs), None)"
proof (induction kvs)
  case Nil
  show ?case by simp
next
  case (Cons e kvs)
  obtain n d where e: "e = (n, d)" by (cases e)
  from Cons.prems e obtain kv b where d: "d = JDict kv" "map_of kv ''default'' = Some (JBool b)"
    by auto
  from Cons.prems
  have "\<forall>(n, d) \<in> set kvs. \<exists>kv b. d = JDict kv \<and> map_of kv ''default'' = Some (JBool b)"
    by simp
  from Cons.IH [OF this] show ?case by (simp add: e d)
qed

lemma ndk_path:
  "truediv (Path ''/opt/ndk/'') ''meta/abis.json''
     = PosixPath ''/'' [''opt'', ''ndk'', ''meta'', ''abis.json'']"
  by (simp add: truediv_def Path_def splitroot_def)

text \<open>
  Claim C7. \<open>ndk_default_abis\<close> ends the process with an error when
  \<open>ANDROID_NDK_HOME\<close> is not set, and when nothing exists at
  \<open><ANDROID_NDK_HOME>/meta/abis.json\<close>. Otherwise, when the file parses as an object
  that maps each ABI name to an object with a boolean field \<open>default\<close>, it yields the
  names whose \<open>default\<close> is true, those and no others, in the order of the file, and
  ends normally.
\<close>

theorem ndk_default_abis_spec:
  "(env ''ANDROID_NDK_HOME'' = None \<longrightarrow>
      ndk_default_abis json_load env fs
        = ([], Some (SystemExit ''ANDROID_NDK_HOME must be set in the environment'')))
   \<and> (env ''ANDROID_NDK_HOME'' = Some home
        \<and> fs (truediv (Path home) ''meta/abis.json'') = None \<longrightarrow>
      ndk_default_abis json_load env fs
        = ([], Some (SystemExit
             (str_path (truediv (Path home) ''meta/abis.json'')
              @ '' does not exist. Does ANDROID_NDK_HOME ('' @ str_path (Path home)
              @ '') point to a valid NDK?''))))
   \<and> (env ''ANDROID_NDK_HOME'' = Some home
        \<and> fs (truediv (Path home) ''meta/abis.json'') = Some (File text)
        \<and> json_load text = Inr (JDict kvs)
        \<and> (\<forall>(n, d) \<in> set kvs. \<exists>kv b. d = JDict kv \<and> map_of kv ''default'' = Some (JBool b))
      \<longrightarrow>
      ndk_default_abis json_load env fs
        = (map fst (filter (\<lambda>(n, d). getitem d ''default'' = Inr (JBool True)) kvs), None))"
  by (auto simp: ndk_default_abis_def environ_getitem_def Let_def yield_defaults_bool)

text \<open>
  The theorem at an NDK with three ABIs, \<open>riscv64\<close> not default; without the variable;
  and without the file.
\<close>

theorem ndk_default_abis_spec_witness:
  "ndk_env ''ANDROID_NDK_HOME'' = Some ''/opt/ndk/''
   \<and> ndk_fs (truediv (Path ''/opt/ndk/'') ''meta/abis.json'') = Some (File abis_text)
   \<and> abis_load abis_text = Inr (JDict abis_items)
   \<and> ndk_default_abis abis_load ndk_env ndk_fs = ([''arm64-v8a'', ''x86_64''], None)
   \<and> ndk_default_abis abis_load Map.empty ndk_fs
       = ([], Some (SystemExit ''ANDROID_NDK_HOME must be set in the environment''))
   \<and> ndk_default_abis abis_load ndk_env (\<lambda>p. None)
       = ([], Some (SystemExit
            ''/opt/ndk/meta/abis.json does not exist. Does ANDROID_NDK_HOME (/opt/ndk) point to a valid NDK?''))"
proof -
  have h1: "ndk_env ''ANDROID_NDK_HOME'' = Some ''/opt/ndk/''" by (simp add: ndk_env_def)
  have h2: "ndk_fs (truediv (Path ''/opt/ndk/'') ''meta/abis.json'') = Some (File abis_text)"
    by (simp add: ndk_path ndk_fs_def mount_def)
  have h3: "abis_load abis_text = Inr (JDict abis_items)" by (simp add: abis_load_def)
  have h4: "\<forall>(n, d) \<in> set abis_items.
      \<exists>kv b. d = JDict kv \<and> map_of kv ''default'' = Some (JBool b)"
    by (auto simp: abis_items_def)
  have 1: "ndk_default_abis abis_load ndk_env ndk_fs = ([''arm64-v8a'', ''x86_64''], None)"
    using ndk_default_abis_spec [of ndk_env abis_load ndk_fs "''/opt/ndk/''" abis_text
        abis_items] h1 h2 h3 h4
    by (simp add: abis_items_def)
  have 2: "ndk_default_abis abis_load Map.empty ndk_fs
       = ([], Some (SystemExit ''ANDROID_NDK_HOME must be set in the environment''))"
    using ndk_default_abis_spec [of Map.empty abis_load ndk_fs] by simp
  have 3: "ndk_default_abis abis_load ndk_env (\<lambda>p. None)
       = ([], Some (SystemExit
            ''/opt/ndk/meta/abis.json does not exist. Does ANDROID_NDK_HOME (/opt/ndk) point to a valid NDK?''))"
  proof -
    have p1: "str_path (truediv (Path ''/opt/ndk/'') ''meta/abis.json'')
        = ''/opt/ndk/meta/abis.json''"
      by (simp add: ndk_path str_path_def)
    have p2: "str_path (Path ''/opt/ndk/'') = ''/opt/ndk''"
      by (simp add: str_path_def Path_def splitroot_def)
    show ?thesis
      using ndk_default_abis_spec [of ndk_env abis_load "\<lambda>p. None" "''/opt/ndk/''"] h1
      unfolding p1 p2 by simp
  qed
  from h1 h2 h3 1 2 3 show ?thesis by simp
qed

subsection \<open>C8: the two copies of the packaging function\<close>

lemma jitpack_write_libs_eq: "jitpack_write_libs z d ls = write_libs z d ls"
  by (induction ls arbitrary: z) (simp_all split: prod.splits sum.splits)

lemma jitpack_abi_loop_eq: "jitpack_abi_loop z ds = abi_loop z ds"
  by (induction ds arbitrary: z)
     (simp_all add: Let_def jitpack_write_libs_eq split: prod.splits sum.splits)

lemma jitpack_manifest_fstring_eq: "jitpack_manifest_fstring g a n = manifest_fstring g a n"
  by (simp add: jitpack_manifest_fstring_def manifest_fstring_def)

text \<open>
  Claim C8. The \<open>generate_aar\<close> of \<open>scripts/jitpack.py\<close> and the \<open>generate_aar\<close> of
  \<open>scripts/aar.py\<close> behave alike on every input: the same result (the same error when
  they fail) and the same archive.
\<close>

theorem generate_aar_copies_agree:
  "jitpack_generate_aar fs output_path library_dir group_id artifact_id min_sdk_version
     = generate_aar fs output_path library_dir group_id artifact_id min_sdk_version"
  unfolding jitpack_generate_aar_def generate_aar_def jitpack_abi_loop_eq
    jitpack_manifest_fstring_eq ..

subsection \<open>C9: a child that is not a directory\<close>

text \<open>
  Claim C9 says that with a non-directory child in the library directory the call raises
  the no-libraries error naming that child. The loop stops at the first child without a
  match: here an empty ABI directory is listed before the regular file, and the error
  names the directory, not the file.
\<close>

theorem generate_aar_file_child_counterexample:
  "fst (generate_aar (mount lib_path (Dir empty_then_readme_tree)) out_path lib_path
          ''com.example'' ''foo'' 26)
     = Inl (RuntimeError ''No libraries found matching lib/arm64-v8a/*.so'')
   \<and> fst (generate_aar (mount lib_path (Dir empty_then_readme_tree)) out_path lib_path
          ''com.example'' ''foo'' 26)
     \<noteq> Inl (RuntimeError ''No libraries found matching lib/README.md/*.so'')"
proof -
  have f: "mount lib_path (Dir empty_then_readme_tree) lib_path
      = Some (Dir ([] @ (''arm64-v8a'', 2024, Dir []) # [(''README.md'', 2024, File ''text'')]))"
    by (simp add: empty_then_readme_tree_def)
  have p: "list_all packs []" by simp
  have n: "no_match (''arm64-v8a'', 2024, Dir [])" by (simp add: eval_defs)
  show ?thesis
    unfolding generate_aar_no_match
      [of "mount lib_path (Dir empty_then_readme_tree)" lib_path, OF f p n]
    by (simp add: eval_defs lib_path_def)
qed

text \<open>
  Claim C9, amended. When the library directory has an immediate child that is a regular
  file, the match set of that child is empty and \<open>generate_aar\<close> fails: the iteration
  takes every child, not only the subdirectories. There is a first child in listing
  order whose match set is empty, which is the regular file when every child listed
  before it has a match; when every matching entry of the children listed before that
  first child can be stored in the archive, the call raises the no-libraries error
  naming that first child.
\<close>

theorem generate_aar_file_child:
  assumes "fs library_dir = Some (Dir es)"
    and "(n, t, File data) \<in> set es"
  shows "matches (File data) = []
     \<and> (\<exists>e. fst (generate_aar fs output_path library_dir group_id artifact_id min_sdk_version)
             = Inl e)
     \<and> (\<exists>pre n' u x post. es = pre @ (n', u, x) # post \<and> matches x = []
           \<and> (\<forall>e \<in> set pre. matches (snd (snd e)) \<noteq> []))
     \<and> (\<forall>pre n' u x post.
           es = pre @ (n', u, x) # post \<and> matches x = []
           \<and> (\<forall>e \<in> set pre. matches (snd (snd e)) \<noteq> []) \<and> list_all storable_child pre
           \<longrightarrow> fst (generate_aar fs output_path library_dir group_id artifact_id
                      min_sdk_version)
               = Inl (RuntimeError (''No libraries found matching ''
                        @ str_path (make_child_relpath library_dir n') @ ''/*.so'')))"
proof -
  have 0: "matches (File data) = []" by (simp add: matches_def)
  then have nm: "no_match (n, t, File data)" by (simp add: no_match_def)
  have 1: "\<exists>e. fst (generate_aar fs output_path library_dir group_id artifact_id min_sdk_version)
      = Inl e"
    using no_match_fails [of fs library_dir, OF assms(1,2) nm] .
  from first_no_match [OF assms(2) nm] obtain pre d' post where
    h: "es = pre @ d' # post" "no_match d'" "\<forall>e \<in> set pre. \<not> no_match e" by blast
  obtain n' u x where d': "d' = (n', u, x)" by (cases d')
  from h d' have 2: "\<exists>pre n' u x post. es = pre @ (n', u, x) # post \<and> matches x = []
           \<and> (\<forall>e \<in> set pre. matches (snd (snd e)) \<noteq> [])"
    unfolding no_match_def by fastforce
  have 3: "fst (generate_aar fs output_path library_dir group_id artifact_id min_sdk_version)
      = Inl (RuntimeError (''No libraries found matching ''
               @ str_path (make_child_relpath library_dir n') @ ''/*.so''))"
    if "es = pre @ (n', u, x) # post" "matches x = []"
      "\<forall>e \<in> set pre. matches (snd (snd e)) \<noteq> []" "list_all storable_child pre"
    for pre n' u x post
  proof -
    have p: "list_all packs pre"
      using that(3,4) by (intro packs_prefix) (simp_all add: no_match_def)
    have m: "no_match (n', u, x)" using that(2) by (simp add: no_match_def)
    from assms(1) that(1) have f: "fs library_dir = Some (Dir (pre @ (n', u, x) # post))"
      by simp
    show ?thesis
      unfolding generate_aar_no_match [of fs library_dir, OF f p m]
      by (simp add: no_libraries_def)
  qed
  from 0 1 2 3 show ?thesis by blast
qed

text \<open>
  The amended statement at a library directory with one ABI directory and a README
  listed after it: the error names the README.
\<close>

theorem generate_aar_file_child_witness:
  "mount lib_path (Dir readme_last_tree) lib_path = Some (Dir readme_last_tree)
   \<and> (''README.md'', 2024, File ''text'') \<in> set readme_last_tree
   \<and> readme_last_tree
       = [(''arm64-v8a'', 2024, Dir [(''libfoo.so'', 2024, File ''ELF'')])]
         @ (''README.md'', 2024, File ''text'') # []
   \<and> matches (Dir [(''libfoo.so'', 2024, File ''ELF'')]) \<noteq> []
   \<and> list_all storable_child [(''arm64-v8a'', 2024, Dir [(''libfoo.so'', 2024, File ''ELF'')])]
   \<and> fst (generate_aar (mount lib_path (Dir readme_last_tree)) out_path lib_path
            ''com.example'' ''foo'' 26)
       = Inl (RuntimeError ''No libraries found matching lib/README.md/*.so'')"
proof -
  have h1: "mount lib_path (Dir readme_last_tree) lib_path = Some (Dir readme_last_tree)"
    by simp
  have h2: "(''README.md'', 2024, File ''text'') \<in> set readme_last_tree"
    by (simp add: readme_last_tree_def)
  have h3: "readme_last_tree
      = [(''arm64-v8a'', 2024, Dir [(''libfoo.so'', 2024, File ''ELF'')])]
        @ (''README.md'', 2024, File ''text'') # []"
    by (simp add: readme_last_tree_def)
  have h4: "\<forall>e \<in> set [(''arm64-v8a'', 2024, Dir [(''libfoo.so'', 2024, File ''ELF'')])].
      matches (snd (snd e)) \<noteq> []"
    by (simp add: matches_def fnmatch_def endswith_def)
  have h5: "list_all storable_child
      [(''arm64-v8a'', 2024, Dir [(''libfoo.so'', 2024, File ''ELF'')])]"
    by (simp add: storable_defs eval_defs)
  have m: "matches (File ''text'') = []" by (simp add: matches_def)
  from generate_aar_file_child [of "mount lib_path (Dir readme_last_tree)" lib_path
      readme_last_tree "''README.md''" 2024 "''text''" out_path "''com.example''" "''foo''" 26,
      OF h1 h2] h3 h4 h5 m
  have "fst (generate_aar (mount lib_path (Dir readme_last_tree)) out_path lib_path
            ''com.example'' ''foo'' 26)
       = Inl (RuntimeError (''No libraries found matching ''
                        @ str_path (make_child_relpath lib_path ''README.md'') @ ''/*.so''))"
    by blast
  then show ?thesis using h1 h2 h3 h4 h5
    by (simp add: str_path_def make_child_relpath_def lib_path_def)
qed

subsection \<open>C10: a library directory without children\<close>

text \<open>
  Claim C10. For a library directory that has no children \<open>generate_aar\<close> returns
  normally, and the archive holds one entry, \<open>AndroidManifest.xml\<close>: no child is there
  to fail the check, and the result is a manifest-only archive, not an error.
\<close>

theorem generate_aar_empty_dir:
  assumes "fs library_dir = Some (Dir [])"
  shows "generate_aar fs output_path library_dir group_id artifact_id min_sdk_version
     = (Inr (),
        \<lparr>zip_filename = output_path,
         zip_filelist =
           [(''AndroidManifest.xml'',
             dedent (manifest_fstring group_id artifact_id min_sdk_version))],
         zip_closed = True\<rparr>)"
  using generate_aar_packs [of fs library_dir "[]", OF assms] by simp

text \<open>The theorem at an empty directory \<open>lib\<close>.\<close>

theorem generate_aar_empty_dir_witness:
  "mount lib_path (Dir []) lib_path = Some (Dir [])
   \<and> generate_aar (mount lib_path (Dir [])) out_path lib_path ''com.example'' ''foo'' 26
     = (Inr (),
        \<lparr>zip_filename = out_path,
         zip_filelist =
           [(''AndroidManifest.xml'', dedent (manifest_fstring ''com.example'' ''foo'' 26))],
         zip_closed = True\<rparr>)"
proof -
  have h: "mount lib_path (Dir []) lib_path = Some (Dir [])" by simp
  from generate_aar_empty_dir [of "mount lib_path (Dir [])" lib_path, OF h] h
  show ?thesis by blast
qed

end
